theory Spec2Isabelle
  imports Complex_Main "HOL-Library.Signed_Division"
begin

section \<open>Compute-shader generators of the WebGL backend\<close>

text \<open>
  The classes of \<^verbatim>\<open>mulmat_packed_gpu_cs.ts\<close> and \<^verbatim>\<open>conv_gpu_depthwise_cs.ts\<close>
  build a program object whose \<^verbatim>\<open>userCode\<close> is GLSL text obtained from a template
  literal. The text is represented here by its syntax tree: every template is translated
  statement by statement, and every interpolation \<^verbatim>\<open>${...}\<close> becomes a leaf holding the
  JavaScript value that is printed there.
\<close>

subsection \<open>JavaScript numbers\<close>

text \<open>
  A JavaScript number is modelled as an exact rational, or \<open>NonFinite\<close> for the values
  \<^verbatim>\<open>Infinity\<close>, \<^verbatim>\<open>-Infinity\<close> and \<^verbatim>\<open>NaN\<close> that a division by zero produces.
  Rounding of doubles is not modelled.
\<close>

datatype jsnum = Fin rat | NonFinite

definition num :: "int \<Rightarrow> jsnum" where
  "num i = Fin (of_int i)"

fun jadd :: "jsnum \<Rightarrow> jsnum \<Rightarrow> jsnum" where
  "jadd (Fin a) (Fin b) = Fin (a + b)"
| "jadd _ _ = NonFinite"

fun jsub :: "jsnum \<Rightarrow> jsnum \<Rightarrow> jsnum" where
  "jsub (Fin a) (Fin b) = Fin (a - b)"
| "jsub _ _ = NonFinite"

fun jmul :: "jsnum \<Rightarrow> jsnum \<Rightarrow> jsnum" where
  "jmul (Fin a) (Fin b) = Fin (a * b)"
| "jmul _ _ = NonFinite"

fun jdiv :: "jsnum \<Rightarrow> jsnum \<Rightarrow> jsnum" where
  "jdiv (Fin a) (Fin b) = (if b = 0 then NonFinite else Fin (a / b))"
| "jdiv _ _ = NonFinite"

text \<open>\<^verbatim>\<open>a % b\<close>: the remainder of the division truncated towards zero.\<close>

definition trunc :: "rat \<Rightarrow> int" where
  "trunc x = (if 0 \<le> x then \<lfloor>x\<rfloor> else \<lceil>x\<rceil>)"

fun jrem :: "jsnum \<Rightarrow> jsnum \<Rightarrow> jsnum" where
  "jrem (Fin a) (Fin b) = (if b = 0 then NonFinite else Fin (a - b * of_int (trunc (a / b))))"
| "jrem _ _ = NonFinite"

fun jceil :: "jsnum \<Rightarrow> jsnum" where
  "jceil (Fin a) = Fin (of_int \<lceil>a\<rceil>)"
| "jceil NonFinite = NonFinite"

fun jfloor :: "jsnum \<Rightarrow> jsnum" where
  "jfloor (Fin a) = Fin (of_int \<lfloor>a\<rfloor>)"
| "jfloor NonFinite = NonFinite"

subsection \<open>Syntax of the emitted GLSL\<close>

datatype binop = OpAdd | OpSub | OpMul | OpDiv | OpLt | OpGe | OpEq | OpNe | OpAnd | OpOr

datatype expr =
    NumE jsnum                \<comment> \<open>an interpolated number \<^verbatim>\<open>${n}\<close>\<close>
  | IntE int                  \<comment> \<open>an integer literal of the template\<close>
  | FloatE jsnum              \<comment> \<open>a float literal: \<^verbatim>\<open>${n}.0\<close>, \<^verbatim>\<open>0.0\<close>, \<^verbatim>\<open>0.\<close>\<close>
  | BoolE bool                \<comment> \<open>an interpolated boolean\<close>
  | Var string
  | Field expr string         \<comment> \<open>\<^verbatim>\<open>e.xyz\<close>\<close>
  | Index expr expr           \<comment> \<open>\<^verbatim>\<open>e[i]\<close>\<close>
  | Call string "expr list"
  | Bin binop expr expr
  | Cond expr expr expr       \<comment> \<open>\<^verbatim>\<open>c ? a : b\<close>\<close>

datatype stmt =
    Decl string string "expr list" "expr option"
      \<comment> \<open>type, name, array extents, initialiser\<close>
  | Assign expr expr          \<comment> \<open>\<^verbatim>\<open>lhs = rhs;\<close>\<close>
  | AddAssign expr expr       \<comment> \<open>\<^verbatim>\<open>lhs += rhs;\<close>\<close>
  | For string expr expr expr "stmt list"
      \<comment> \<open>\<^verbatim>\<open>for (int v = init; v < bound; v += step) {...}\<close>; \<^verbatim>\<open>v++\<close> is step 1\<close>
  | If expr "stmt list" "stmt list"
  | Continue
  | Break
  | Return
  | ReturnV expr
  | CallS string "expr list"  \<comment> \<open>a call used as a statement\<close>
  | RawS string               \<comment> \<open>text spliced in verbatim\<close>

datatype topdecl =
    FunDef string string "(string \<times> string) list" "stmt list"
  | ConstDecl string string expr
  | SharedDecl string string "expr list"
  | Main "stmt list"

subsection \<open>The program object\<close>

text \<open>
  The fields the classes assign. \<^verbatim>\<open>usesPackedTextures\<close>, \<^verbatim>\<open>localGroupSize\<close> and
  \<^verbatim>\<open>workPerThread\<close> are absent from some classes.
\<close>

record GPGPUProgram =
  variableNames :: "string list"
  usesPackedTextures :: "bool option"
  outputShape :: "int list"
  userCode :: "topdecl list"
  localGroupSize :: "jsnum list option"
  workPerThread :: "jsnum list option"

text \<open>
  How a constructor call completes: the lines it wrote with \<^verbatim>\<open>console.error\<close> and the
  object, or an exception.
\<close>

datatype 'a completion =
    is_Returns: Returns (console_error: "string list") (constructed: 'a)
  | is_Throws: Throws string

text \<open>\<^verbatim>\<open>if (activation)\<close>: \<^verbatim>\<open>null\<close> and the empty string are falsy.\<close>

definition truthy :: "string option \<Rightarrow> bool" where
  "truthy activation = (case activation of None \<Rightarrow> False | Some s \<Rightarrow> s \<noteq> [])"

text \<open>A shape \<^verbatim>\<open>[number, number, number]\<close> as the array it is.\<close>

fun shape3 :: "int \<times> int \<times> int \<Rightarrow> int list" where
  "shape3 (d0, d1, d2) = [d0, d1, d2]"

subsection \<open>\<^verbatim>\<open>MatMulPackedProgramCSV1\<close>\<close>

definition MatMulPackedProgramCSV1 ::
  "int \<times> int \<times> int \<Rightarrow> int \<times> int \<times> int \<Rightarrow> bool \<Rightarrow> bool \<Rightarrow> int \<Rightarrow> bool \<Rightarrow> string option
     \<Rightarrow> GPGPUProgram" where
  "MatMulPackedProgramCSV1 aShape outputShape' transposeA transposeB TS addBias activation =
    (let sharedDim = (if transposeA then fst (snd aShape) else snd (snd aShape));
         sharedDimensionPacked = jceil (jdiv (num sharedDim) (num 2));
         aSample = (if transposeA
                    then [Bin OpMul (Var ''tileCol'') (IntE 2), Bin OpMul (Var ''globalRow'') (IntE 2)]
                    else [Bin OpMul (Var ''globalRow'') (IntE 2), Bin OpMul (Var ''tileCol'') (IntE 2)]);
         bSample = (if transposeB
                    then [Bin OpMul (Var ''globalCol'') (IntE 2), Bin OpMul (Var ''tileRow'') (IntE 2)]
                    else [Bin OpMul (Var ''tileRow'') (IntE 2), Bin OpMul (Var ''globalCol'') (IntE 2)]);
         aSwizzle = (if transposeA then [Field (Var ''a'') ''xxyy'', Field (Var ''a'') ''zzww'']
                     else [Field (Var ''a'') ''xxzz'', Field (Var ''a'') ''yyww'']);
         bSwizzle = (if transposeB then [Field (Var ''b'') ''xzxz'', Field (Var ''b'') ''ywyw'']
                     else [Field (Var ''b'') ''xyxy'', Field (Var ''b'') ''zwzw'']);
         activationSnippet =
           (if truthy activation
            then [FunDef ''vec4'' ''activation'' [(''vec4'', ''x'')] [RawS (the activation)]]
            else []);
         applyActivationSnippet =
           (if truthy activation
            then [Assign (Var ''result'') (Call ''activation'' [Var ''result''])]
            else []);
         addBiasSnippet =
           (if addBias then [AddAssign (Var ''result'') (Call ''getBiasAtOutCoords'' [])] else [])
     in \<lparr> variableNames = [''matrixA'', ''matrixB''] @ (if addBias then [''bias''] else []),
          usesPackedTextures = Some True,
          outputShape = shape3 outputShape',
          userCode = activationSnippet @
           [ConstDecl ''float'' ''sharedDimension'' (FloatE sharedDimensionPacked),
            SharedDecl ''vec4'' ''Asub'' [NumE (num TS), NumE (num TS)],
            SharedDecl ''vec4'' ''Bsub'' [NumE (num TS), NumE (num TS)],
            Main (
             [Decl ''ivec3'' ''rc'' [] (Some (Call ''getOutputCoords'' [])),
              Decl ''int'' ''row'' [] (Some (Call ''int'' [Field (Var ''gl_LocalInvocationID'') ''y''])),
              Decl ''int'' ''col'' [] (Some (Call ''int'' [Field (Var ''gl_LocalInvocationID'') ''x''])),
              Decl ''int'' ''globalRow'' []
                (Some (Call ''int'' [Field (Var ''gl_GlobalInvocationID'') ''y''])),
              Decl ''int'' ''globalCol'' []
                (Some (Call ''int'' [Field (Var ''gl_GlobalInvocationID'') ''x''])),
              Decl ''int'' ''numTiles'' []
                (Some (NumE (jceil (jdiv sharedDimensionPacked (num TS))))),
              Decl ''vec4'' ''result'' [] (Some (Call ''vec4'' [IntE 0])),
              For ''t'' (IntE 0) (Var ''numTiles'') (IntE 1)
               [Decl ''int'' ''tileRow'' []
                  (Some (Bin OpAdd (Bin OpMul (NumE (num TS)) (Var ''t'')) (Var ''row''))),
                Decl ''int'' ''tileCol'' []
                  (Some (Bin OpAdd (Bin OpMul (NumE (num TS)) (Var ''t'')) (Var ''col''))),
                Assign (Index (Index (Var ''Asub'') (Var ''row'')) (Var ''col''))
                       (Call ''getMatrixA'' (Field (Var ''rc'') ''x'' # aSample)),
                Assign (Index (Index (Var ''Bsub'') (Var ''row'')) (Var ''col''))
                       (Call ''getMatrixB'' (Field (Var ''rc'') ''x'' # bSample)),
                CallS ''memoryBarrierShared'' [],
                CallS ''barrier'' [],
                Decl ''int'' ''sizeTS'' []
                  (Some (Cond
                    (Bin OpAnd (Bin OpEq (Var ''t'') (Bin OpSub (Var ''numTiles'') (IntE 1)))
                               (Bin OpNe (NumE (jrem sharedDimensionPacked (num TS))) (IntE 0)))
                    (NumE (jrem sharedDimensionPacked (num TS)))
                    (NumE (num TS)))),
                For ''i'' (IntE 0) (Var ''sizeTS'') (IntE 1)
                 [Decl ''vec4'' ''a'' [] (Some (Index (Index (Var ''Asub'') (Var ''row'')) (Var ''i''))),
                  Decl ''vec4'' ''b'' [] (Some (Index (Index (Var ''Bsub'') (Var ''i'')) (Var ''col''))),
                  AddAssign (Var ''result'')
                    (Bin OpAdd (Bin OpMul (aSwizzle ! 0) (bSwizzle ! 0))
                               (Bin OpMul (aSwizzle ! 1) (bSwizzle ! 1)))],
                CallS ''barrier'' []]]
             @ addBiasSnippet
             @ applyActivationSnippet
             @ [CallS ''setOutput'' [Var ''result'']])],
          localGroupSize = Some [num TS, num TS],
          workPerThread = None \<rparr>)"

subsection \<open>\<^verbatim>\<open>MatMulPackedProgramCSV2\<close>\<close>

definition MatMulPackedProgramCSV2 ::
  "int \<times> int \<times> int \<Rightarrow> int \<times> int \<times> int \<Rightarrow> bool \<Rightarrow> bool \<Rightarrow> int \<Rightarrow> int \<Rightarrow> bool
     \<Rightarrow> string option \<Rightarrow> GPGPUProgram" where
  "MatMulPackedProgramCSV2 aShape outputShape' transposeA transposeB TS WPT addBias activation =
    (let sharedDim = (if transposeA then fst (snd aShape) else snd (snd aShape));
         sharedDimensionPacked = jceil (jdiv (num sharedDim) (num 2));
         RTS = jdiv (num TS) (num WPT);
         globalRowW = Bin OpAdd (Var ''globalRow'') (Bin OpMul (Var ''w'') (NumE RTS));
         tileRowW = Bin OpAdd (Var ''tileRow'') (Bin OpMul (Var ''w'') (NumE RTS));
         aSample = (if transposeA
                    then [Bin OpMul (Var ''tileCol'') (IntE 2), Bin OpMul globalRowW (IntE 2)]
                    else [Bin OpMul globalRowW (IntE 2), Bin OpMul (Var ''tileCol'') (IntE 2)]);
         bSample = (if transposeB
                    then [Bin OpMul (Var ''globalCol'') (IntE 2), Bin OpMul tileRowW (IntE 2)]
                    else [Bin OpMul tileRowW (IntE 2), Bin OpMul (Var ''globalCol'') (IntE 2)]);
         aSwizzle = (if transposeA then [Field (Var ''a'') ''xxyy'', Field (Var ''a'') ''zzww'']
                     else [Field (Var ''a'') ''xxzz'', Field (Var ''a'') ''yyww'']);
         bSwizzle = (if transposeB then [Field (Var ''b'') ''xzxz'', Field (Var ''b'') ''ywyw'']
                     else [Field (Var ''b'') ''xyxy'', Field (Var ''b'') ''zwzw'']);
         activationSnippet =
           (if truthy activation
            then [FunDef ''vec4'' ''activation'' [(''vec4'', ''x'')] [RawS (the activation)]]
            else []);
         applyActivationSnippet =
           (if truthy activation
            then [Assign (Var ''result'') (Call ''activation'' [Var ''result''])]
            else []);
         addBiasSnippet =
           (if addBias then [AddAssign (Var ''result'') (Call ''getBiasAtOutCoords'' [])] else [])
     in \<lparr> variableNames = [''matrixA'', ''matrixB''] @ (if addBias then [''bias''] else []),
          usesPackedTextures = Some True,
          outputShape = shape3 outputShape',
          userCode = activationSnippet @
           [ConstDecl ''float'' ''sharedDimension'' (FloatE sharedDimensionPacked),
            SharedDecl ''vec4'' ''Asub'' [NumE (num TS), NumE (num TS)],
            SharedDecl ''vec4'' ''Bsub'' [NumE (num TS), NumE (num TS)],
            Main (
             [Decl ''ivec3'' ''rc'' [] (Some (Call ''getOutputCoords'' [])),
              Decl ''int'' ''row'' [] (Some (Call ''int'' [Field (Var ''gl_LocalInvocationID'') ''y''])),
              Decl ''int'' ''col'' [] (Some (Call ''int'' [Field (Var ''gl_LocalInvocationID'') ''x''])),
              Decl ''int'' ''globalRow'' []
                (Some (Bin OpAdd
                  (Bin OpMul (NumE (num TS)) (Call ''int'' [Field (Var ''gl_WorkGroupID'') ''y'']))
                  (Var ''row''))),
              Decl ''int'' ''globalCol'' []
                (Some (Bin OpAdd
                  (Bin OpMul (NumE (num TS)) (Call ''int'' [Field (Var ''gl_WorkGroupID'') ''x'']))
                  (Var ''col''))),
              Decl ''int'' ''numTiles'' []
                (Some (NumE (jceil (jdiv sharedDimensionPacked (num TS))))),
              Decl ''vec4'' ''result'' [NumE (num WPT)] None,
              For ''t'' (IntE 0) (Var ''numTiles'') (IntE 1)
               [Decl ''int'' ''tileRow'' []
                  (Some (Bin OpAdd (Bin OpMul (NumE (num TS)) (Var ''t'')) (Var ''row''))),
                Decl ''int'' ''tileCol'' []
                  (Some (Bin OpAdd (Bin OpMul (NumE (num TS)) (Var ''t'')) (Var ''col''))),
                For ''w'' (IntE 0) (NumE (num WPT)) (IntE 1)
                 [Assign (Index (Index (Var ''Asub'')
                            (Bin OpAdd (Var ''row'') (Bin OpMul (Var ''w'') (NumE RTS))))
                            (Var ''col''))
                         (Call ''getMatrixA'' (Field (Var ''rc'') ''x'' # aSample)),
                  Assign (Index (Index (Var ''Bsub'')
                            (Bin OpAdd (Var ''row'') (Bin OpMul (Var ''w'') (NumE RTS))))
                            (Var ''col''))
                         (Call ''getMatrixB'' (Field (Var ''rc'') ''x'' # bSample))],
                CallS ''memoryBarrierShared'' [],
                CallS ''barrier'' [],
                Decl ''int'' ''sizeTS'' []
                  (Some (Cond
                    (Bin OpAnd (Bin OpEq (Var ''t'') (Bin OpSub (Var ''numTiles'') (IntE 1)))
                               (Bin OpNe (NumE (jrem sharedDimensionPacked (num TS))) (IntE 0)))
                    (NumE (jrem sharedDimensionPacked (num TS)))
                    (NumE (num TS)))),
                For ''i'' (IntE 0) (Var ''sizeTS'') (IntE 1)
                 [Decl ''vec4'' ''b'' [] (Some (Index (Index (Var ''Bsub'') (Var ''i'')) (Var ''col''))),
                  For ''w'' (IntE 0) (NumE (num WPT)) (IntE 1)
                   [Decl ''vec4'' ''a'' []
                      (Some (Index (Index (Var ''Asub'')
                               (Bin OpAdd (Var ''row'') (Bin OpMul (Var ''w'') (NumE RTS))))
                               (Var ''i''))),
                    AddAssign (Index (Var ''result'') (Var ''w''))
                      (Bin OpAdd (Bin OpMul (aSwizzle ! 0) (bSwizzle ! 0))
                                 (Bin OpMul (aSwizzle ! 1) (bSwizzle ! 1)))]],
                CallS ''barrier'' []]]
             @ addBiasSnippet
             @ applyActivationSnippet
             @ [For ''w'' (IntE 0) (NumE (num WPT)) (IntE 1)
                 [CallS ''imageStore''
                   [Var ''outputColor'',
                    Call ''ivec2'' [Var ''globalCol'',
                      Bin OpAdd (Var ''globalRow'') (Bin OpMul (Var ''w'') (NumE RTS))],
                    Index (Var ''result'') (Var ''w'')]]])],
          localGroupSize = Some [num TS, RTS],
          workPerThread = Some [num 1, num WPT] \<rparr>)"

subsection \<open>\<^verbatim>\<open>MatMulPackedProgramCSV3\<close>\<close>

text \<open>
  With \<^verbatim>\<open>addBias\<close> the constructor writes a line with \<^verbatim>\<open>console.error\<close> and goes on;
  it has no \<^verbatim>\<open>throw\<close>.
\<close>

definition MatMulPackedProgramCSV3 ::
  "int \<times> int \<times> int \<Rightarrow> int \<times> int \<times> int \<Rightarrow> bool \<Rightarrow> bool \<Rightarrow> int \<Rightarrow> int \<Rightarrow> bool
     \<Rightarrow> string option \<Rightarrow> GPGPUProgram completion" where
  "MatMulPackedProgramCSV3 aShape outputShape' transposeA transposeB TS WPT addBias activation =
    (let sharedDim = (if transposeA then fst (snd aShape) else snd (snd aShape));
         sharedDimensionPacked = jceil (jdiv (num sharedDim) (num 2));
         RTS = jdiv (num TS) (num WPT);
         inner = (\<lambda>v i. Bin OpAdd (Var v) (Bin OpMul (Var i) (NumE RTS)));
         aSample = (if transposeA
                    then [Bin OpMul (inner ''tileCol'' ''innerCol'') (IntE 2),
                          Bin OpMul (inner ''globalRow'' ''innerRow'') (IntE 2)]
                    else [Bin OpMul (inner ''globalRow'' ''innerRow'') (IntE 2),
                          Bin OpMul (inner ''tileCol'' ''innerCol'') (IntE 2)]);
         bSample = (if transposeB
                    then [Bin OpMul (inner ''globalCol'' ''innerCol'') (IntE 2),
                          Bin OpMul (inner ''tileRow'' ''innerRow'') (IntE 2)]
                    else [Bin OpMul (inner ''tileRow'' ''innerRow'') (IntE 2),
                          Bin OpMul (inner ''globalCol'' ''innerCol'') (IntE 2)]);
         aSwizzle = (if transposeA then [Field (Var ''a'') ''xxyy'', Field (Var ''a'') ''zzww'']
                     else [Field (Var ''a'') ''xxzz'', Field (Var ''a'') ''yyww'']);
         bSwizzle = (if transposeB then [Field (Var ''b'') ''xzxz'', Field (Var ''b'') ''ywyw'']
                     else [Field (Var ''b'') ''xyxy'', Field (Var ''b'') ''zwzw'']);
         resultAt = Index (Index (Var ''result'') (Var ''innerRow'')) (Var ''innerCol'');
         activationSnippet =
           (if truthy activation
            then [FunDef ''vec4'' ''activation'' [(''vec4'', ''x'')] [RawS (the activation)]]
            else []);
         applyActivationSnippet =
           (if truthy activation then [Assign resultAt (Call ''activation'' [resultAt])] else [])
     in Returns (if addBias then [''bias is not supported''] else [])
        \<lparr> variableNames = [''matrixA'', ''matrixB''],
          usesPackedTextures = Some True,
          outputShape = shape3 outputShape',
          userCode = activationSnippet @
           [SharedDecl ''vec4'' ''Asub'' [NumE (num TS), NumE (num TS)],
            SharedDecl ''vec4'' ''Bsub'' [NumE (num TS), NumE (num TS)],
            Main
             [Decl ''ivec3'' ''rc'' [] (Some (Call ''getOutputCoords'' [])),
              Decl ''int'' ''row'' [] (Some (Call ''int'' [Field (Var ''gl_LocalInvocationID'') ''y''])),
              Decl ''int'' ''col'' [] (Some (Call ''int'' [Field (Var ''gl_LocalInvocationID'') ''x''])),
              Decl ''int'' ''globalRow'' []
                (Some (Bin OpAdd
                  (Bin OpMul (NumE (num TS)) (Call ''int'' [Field (Var ''gl_WorkGroupID'') ''y'']))
                  (Var ''row''))),
              Decl ''int'' ''globalCol'' []
                (Some (Bin OpAdd
                  (Bin OpMul (NumE (num TS)) (Call ''int'' [Field (Var ''gl_WorkGroupID'') ''x'']))
                  (Var ''col''))),
              Decl ''vec4'' ''Breg'' [NumE (num WPT)] None,
              Decl ''vec4'' ''result'' [NumE (num WPT), NumE (num WPT)] None,
              For ''innerRow'' (IntE 0) (NumE (num WPT)) (IntE 1)
               [For ''innerCol'' (IntE 0) (NumE (num WPT)) (IntE 1)
                 [Assign resultAt (Call ''vec4'' [IntE 0])]],
              Decl ''int'' ''numTiles'' []
                (Some (NumE (jceil (jdiv sharedDimensionPacked (num TS))))),
              For ''t'' (IntE 0) (Var ''numTiles'') (IntE 1)
               [Decl ''int'' ''tileRow'' []
                  (Some (Bin OpAdd (Bin OpMul (NumE (num TS)) (Var ''t'')) (Var ''row''))),
                Decl ''int'' ''tileCol'' []
                  (Some (Bin OpAdd (Bin OpMul (NumE (num TS)) (Var ''t'')) (Var ''col''))),
                For ''innerRow'' (IntE 0) (NumE (num WPT)) (IntE 1)
                 [Decl ''int'' ''inputRow'' [] (Some (inner ''row'' ''innerRow'')),
                  For ''innerCol'' (IntE 0) (NumE (num WPT)) (IntE 1)
                   [Decl ''int'' ''inputCol'' [] (Some (inner ''col'' ''innerCol'')),
                    Assign (Index (Index (Var ''Asub'') (Var ''inputRow'')) (Var ''inputCol''))
                           (Call ''getMatrixA'' (Field (Var ''rc'') ''x'' # aSample)),
                    Assign (Index (Index (Var ''Bsub'') (Var ''inputRow'')) (Var ''inputCol''))
                           (Call ''getMatrixB'' (Field (Var ''rc'') ''x'' # bSample))]],
                CallS ''memoryBarrierShared'' [],
                CallS ''barrier'' [],
                Decl ''int'' ''sizeTS'' []
                  (Some (Cond
                    (Bin OpAnd (Bin OpEq (Var ''t'') (Bin OpSub (Var ''numTiles'') (IntE 1)))
                               (Bin OpNe (NumE (jrem sharedDimensionPacked (num TS))) (IntE 0)))
                    (NumE (jrem sharedDimensionPacked (num TS)))
                    (NumE (num TS)))),
                For ''k'' (IntE 0) (Var ''sizeTS'') (IntE 1)
                 [For ''inner'' (IntE 0) (NumE (num WPT)) (IntE 1)
                   [Assign (Index (Var ''Breg'') (Var ''inner''))
                           (Index (Index (Var ''Bsub'') (Var ''k'')) (inner ''col'' ''inner''))],
                  For ''innerRow'' (IntE 0) (NumE (num WPT)) (IntE 1)
                   [Decl ''vec4'' ''a'' []
                      (Some (Index (Index (Var ''Asub'') (inner ''row'' ''innerRow'')) (Var ''k''))),
                    For ''innerCol'' (IntE 0) (NumE (num WPT)) (IntE 1)
                     [Decl ''vec4'' ''b'' [] (Some (Index (Var ''Breg'') (Var ''innerCol''))),
                      AddAssign resultAt
                        (Bin OpAdd (Bin OpMul (aSwizzle ! 0) (bSwizzle ! 0))
                                   (Bin OpMul (aSwizzle ! 1) (bSwizzle ! 1)))]]],
                CallS ''barrier'' []],
              For ''innerRow'' (IntE 0) (NumE (num WPT)) (IntE 1)
               [Decl ''int'' ''outputRow'' [] (Some (inner ''globalRow'' ''innerRow'')),
                If (Bin OpGe (Var ''outputRow'')
                      (NumE (jceil (jdiv (num (shape3 outputShape' ! 1)) (num 2)))))
                   [Continue] [],
                For ''innerCol'' (IntE 0) (NumE (num WPT)) (IntE 1)
                 ([Decl ''int'' ''outputCol'' [] (Some (inner ''globalCol'' ''innerCol'')),
                   If (Bin OpGe (Var ''outputCol'')
                         (NumE (jceil (jdiv (num (shape3 outputShape' ! 2)) (num 2)))))
                      [Continue] []]
                  @ applyActivationSnippet
                  @ [CallS ''imageStore''
                       [Var ''outputColor'',
                        Call ''ivec2'' [Var ''outputCol'', Var ''outputRow''],
                        resultAt]])]]],
          localGroupSize = Some [RTS, RTS],
          workPerThread = Some [num WPT, num WPT] \<rparr>)"

subsection \<open>\<^verbatim>\<open>MatMulPackedProgramCSV4\<close>\<close>

definition MatMulPackedProgramCSV4 ::
  "int \<times> int \<times> int \<Rightarrow> int \<times> int \<times> int \<Rightarrow> bool \<Rightarrow> bool \<Rightarrow> int \<Rightarrow> int \<Rightarrow> int \<Rightarrow> bool
     \<Rightarrow> string option \<Rightarrow> GPGPUProgram completion" where
  "MatMulPackedProgramCSV4 aShape outputShape' transposeA transposeB TS TSK WPT addBias activation =
    (let sharedDim = (if transposeA then fst (snd aShape) else snd (snd aShape));
         sharedDimensionPacked = jceil (jdiv (num sharedDim) (num 2));
         TSM = num TS; TSN = num TS;
         WPTM = num WPT; WPTN = num WPT;
         LPTA = jdiv (jmul (jmul (num TSK) WPTM) WPTN) TSN;
         RTSM = jdiv TSM WPTM; RTSN = jdiv TSN WPTN;
         aSample = (if transposeA
                    then [Bin OpMul (Var ''tiledIndex'') (IntE 2),
                          Bin OpMul (Bin OpAdd (Var ''offsetM'') (Var ''row'')) (IntE 2)]
                    else [Bin OpMul (Bin OpAdd (Var ''offsetM'') (Var ''row'')) (IntE 2),
                          Bin OpMul (Var ''tiledIndex'') (IntE 2)]);
         bSample = (if transposeB
                    then [Bin OpMul (Bin OpAdd (Var ''offsetN'') (Var ''row'')) (IntE 2),
                          Bin OpMul (Var ''tiledIndex'') (IntE 2)]
                    else [Bin OpMul (Var ''tiledIndex'') (IntE 2),
                          Bin OpMul (Bin OpAdd (Var ''offsetN'') (Var ''row'')) (IntE 2)]);
         aSwizzle = (if transposeA then [Field (Var ''a'') ''xxyy'', Field (Var ''a'') ''zzww'']
                     else [Field (Var ''a'') ''xxzz'', Field (Var ''a'') ''yyww'']);
         bSwizzle = (if transposeB then [Field (Var ''b'') ''xzxz'', Field (Var ''b'') ''ywyw'']
                     else [Field (Var ''b'') ''xyxy'', Field (Var ''b'') ''zwzw'']);
         accAt = Index (Index (Var ''acc'') (Var ''wm'')) (Var ''wn'');
         activationSnippet =
           (if truthy activation
            then [FunDef ''vec4'' ''activation'' [(''vec4'', ''x'')] [RawS (the activation)]]
            else []);
         applyActivationSnippet =
           (if truthy activation then [Assign accAt (Call ''activation'' [accAt])] else [])
     in Returns (if addBias then [''bias is not supported''] else [])
        \<lparr> variableNames = [''matrixA'', ''matrixB''],
          usesPackedTextures = Some True,
          outputShape = shape3 outputShape',
          userCode = activationSnippet @
           [SharedDecl ''vec4'' ''Asub'' [NumE TSM, NumE (num TSK)],
            SharedDecl ''vec4'' ''Bsub'' [NumE (num TSK), NumE TSN],
            Main
             [Decl ''ivec3'' ''rc'' [] (Some (Call ''getOutputCoords'' [])),
              Decl ''int'' ''tidm'' [] (Some (Call ''int'' [Field (Var ''gl_LocalInvocationID'') ''y''])),
              Decl ''int'' ''tidn'' [] (Some (Call ''int'' [Field (Var ''gl_LocalInvocationID'') ''x''])),
              Decl ''int'' ''offsetM'' []
                (Some (Bin OpMul (NumE TSM) (Call ''int'' [Field (Var ''gl_WorkGroupID'') ''y'']))),
              Decl ''int'' ''offsetN'' []
                (Some (Bin OpMul (NumE TSN) (Call ''int'' [Field (Var ''gl_WorkGroupID'') ''x'']))),
              Decl ''vec4'' ''Breg'' [NumE WPTN] None,
              Decl ''vec4'' ''acc'' [NumE WPTM, NumE WPTN] None,
              For ''wm'' (IntE 0) (NumE WPTM) (IntE 1)
               [For ''wn'' (IntE 0) (NumE WPTN) (IntE 1)
                 [Assign accAt (Call ''vec4'' [IntE 0])]],
              Decl ''int'' ''numTiles'' []
                (Some (NumE (jceil (jdiv sharedDimensionPacked (num TSK))))),
              For ''t'' (IntE 0) (Var ''numTiles'') (IntE 1)
               [For ''i'' (IntE 0) (NumE LPTA) (IntE 1)
                 [Decl ''int'' ''tid'' []
                    (Some (Bin OpAdd (Bin OpMul (Var ''tidm'') (NumE RTSN)) (Var ''tidn''))),
                  Decl ''int'' ''id'' []
                    (Some (Bin OpAdd (Bin OpMul (Bin OpMul (Var ''i'') (NumE RTSN)) (NumE RTSM))
                                     (Var ''tid''))),
                  Decl ''int'' ''row'' [] (Some (Bin OpDiv (Var ''id'') (NumE (num TSK)))),
                  Decl ''int'' ''col'' [] (Some (Call ''imod'' [Var ''id'', NumE (num TSK)])),
                  Decl ''int'' ''tiledIndex'' []
                    (Some (Bin OpAdd (Bin OpMul (NumE (num TSK)) (Var ''t'')) (Var ''col''))),
                  Assign (Index (Index (Var ''Asub'') (Var ''row'')) (Var ''col''))
                         (Call ''getMatrixA'' (Field (Var ''rc'') ''x'' # aSample)),
                  Assign (Index (Index (Var ''Bsub'') (Var ''col'')) (Var ''row''))
                         (Call ''getMatrixB'' (Field (Var ''rc'') ''x'' # bSample))],
                CallS ''memoryBarrierShared'' [],
                CallS ''barrier'' [],
                Decl ''int'' ''sizeTS'' []
                  (Some (Cond
                    (Bin OpAnd (Bin OpEq (Var ''t'') (Bin OpSub (Var ''numTiles'') (IntE 1)))
                               (Bin OpNe (NumE (jrem sharedDimensionPacked (num TSK))) (IntE 0)))
                    (NumE (jrem sharedDimensionPacked (num TSK)))
                    (NumE (num TSK)))),
                For ''k'' (IntE 0) (Var ''sizeTS'') (IntE 1)
                 [For ''wn'' (IntE 0) (NumE WPTN) (IntE 1)
                   [Decl ''int'' ''col'' []
                      (Some (Bin OpAdd (Var ''tidn'') (Bin OpMul (Var ''wn'') (NumE RTSN)))),
                    Assign (Index (Var ''Breg'') (Var ''wn''))
                           (Index (Index (Var ''Bsub'') (Var ''k'')) (Var ''col''))],
                  For ''wm'' (IntE 0) (NumE WPTM) (IntE 1)
                   [Decl ''int'' ''row'' []
                      (Some (Bin OpAdd (Var ''tidm'') (Bin OpMul (Var ''wm'') (NumE RTSM)))),
                    Decl ''vec4'' ''a'' [] (Some (Index (Index (Var ''Asub'') (Var ''row'')) (Var ''k''))),
                    For ''wn'' (IntE 0) (NumE WPTN) (IntE 1)
                     [Decl ''vec4'' ''b'' [] (Some (Index (Var ''Breg'') (Var ''wn''))),
                      AddAssign accAt
                        (Bin OpAdd (Bin OpMul (aSwizzle ! 0) (bSwizzle ! 0))
                                   (Bin OpMul (aSwizzle ! 1) (bSwizzle ! 1)))]]],
                CallS ''barrier'' []],
              For ''wm'' (IntE 0) (NumE WPTM) (IntE 1)
               [Decl ''int'' ''globalRow'' []
                  (Some (Bin OpAdd (Bin OpAdd (Var ''offsetM'') (Var ''tidm''))
                                   (Bin OpMul (Var ''wm'') (NumE RTSM)))),
                If (Bin OpGe (Var ''globalRow'')
                      (NumE (jceil (jdiv (num (shape3 outputShape' ! 1)) (num 2)))))
                   [Continue] [],
                For ''wn'' (IntE 0) (NumE WPTN) (IntE 1)
                 ([Decl ''int'' ''globalCol'' []
                     (Some (Bin OpAdd (Bin OpAdd (Var ''offsetN'') (Var ''tidn''))
                                      (Bin OpMul (Var ''wn'') (NumE RTSN)))),
                   If (Bin OpGe (Var ''globalCol'')
                         (NumE (jceil (jdiv (num (shape3 outputShape' ! 2)) (num 2)))))
                      [Continue] []]
                  @ applyActivationSnippet
                  @ [CallS ''imageStore''
                       [Var ''outputColor'',
                        Call ''ivec2'' [Var ''globalCol'', Var ''globalRow''],
                        accAt]])]]],
          localGroupSize = Some [RTSN, RTSM],
          workPerThread = Some [WPTN, WPTM] \<rparr>)"

subsection \<open>The convolution descriptor\<close>

text \<open>
  \<^verbatim>\<open>Conv2DInfo\<close> is declared in \<^verbatim>\<open>ops/conv_util\<close>; these are the fields the two
  convolution classes read. The fields \<^verbatim>\<open>top\<close> and \<^verbatim>\<open>left\<close> of \<^verbatim>\<open>padInfo\<close> are
  written \<open>padTop\<close> and \<open>padLeft\<close>, the names of the constants that receive them.
\<close>

record PadInfo =
  padTop :: int
  padLeft :: int

record Conv2DInfo =
  outShape :: "int list"
  inHeight :: int
  inWidth :: int
  inChannels :: int
  outChannels :: int
  padInfo :: PadInfo
  strideHeight :: int
  strideWidth :: int
  dilationHeight :: int
  dilationWidth :: int
  filterHeight :: int
  filterWidth :: int

subsection \<open>\<^verbatim>\<open>DepthwiseConv2DProgramCS\<close>\<close>

definition DepthwiseConv2DProgramCS :: "Conv2DInfo \<Rightarrow> GPGPUProgram" where
  "DepthwiseConv2DProgramCS convInfo =
    (let xNumRows = num (inHeight convInfo);
         xNumCols = num (inWidth convInfo);
         channelMul = jdiv (num (outChannels convInfo)) (num (inChannels convInfo));
         localGroupSize' = [jmul (num 8) channelMul, num 7];
         cornerOf = (\<lambda>c. Bin OpSub (Bin OpMul (Field (Var c) ''yz'') (Var ''strides'')) (Var ''pads''));
         cacheRow = Bin OpAdd (Var ''cacheRCorner'') (Var ''row'');
         cacheCol = Bin OpAdd (Var ''cacheCCorner'') (Var ''col'')
     in \<lparr> variableNames = [''x'', ''W''],
          usesPackedTextures = None,
          outputShape = outShape convInfo,
          userCode =
           [ConstDecl ''ivec2'' ''strides''
              (Call ''ivec2'' [NumE (num (strideHeight convInfo)), NumE (num (strideWidth convInfo))]),
            ConstDecl ''ivec2'' ''pads''
              (Call ''ivec2'' [NumE (num (padTop (padInfo convInfo))),
                               NumE (num (padLeft (padInfo convInfo)))]),
            ConstDecl ''int'' ''cacheH'' (NumE (num (filterHeight convInfo))),
            ConstDecl ''int'' ''cacheW''
              (NumE (jadd (jmul (jsub (localGroupSize' ! 1) (num 1)) (num (strideWidth convInfo)))
                          (num (filterWidth convInfo)))),
            ConstDecl ''int'' ''cacheC'' (NumE (jdiv (localGroupSize' ! 0) channelMul)),
            ConstDecl ''int'' ''cacheHW'' (Bin OpMul (Var ''cacheH'') (Var ''cacheW'')),
            SharedDecl ''float'' ''cache'' [Var ''cacheH'', Bin OpMul (Var ''cacheW'') (Var ''cacheC'')],
            Main
             [Decl ''ivec4'' ''coords'' [] (Some (Call ''getFirstThreadOutputCoords'' [])),
              Decl ''int'' ''batch'' [] (Some (Field (Var ''coords'') ''x'')),
              Decl ''ivec2'' ''cacheRCCorner'' [] (Some (cornerOf ''coords'')),
              Decl ''int'' ''cacheRCorner'' [] (Some (Field (Var ''cacheRCCorner'') ''x'')),
              Decl ''int'' ''cacheCCorner'' [] (Some (Field (Var ''cacheRCCorner'') ''y'')),
              Decl ''int'' ''cacheDCorner'' []
                (Some (Bin OpDiv (Field (Var ''coords'') ''w'') (NumE channelMul))),
              Decl ''int'' ''index'' [] (Some (Call ''int'' [Var ''gl_LocalInvocationIndex''])),
              If (Bin OpLt (Var ''index'') (Var ''cacheHW''))
               [Decl ''int'' ''row'' [] (Some (Bin OpDiv (Var ''index'') (Var ''cacheW''))),
                Decl ''int'' ''col'' [] (Some (Call ''imod'' [Var ''index'', Var ''cacheW''])),
                If (Bin OpAnd
                     (Bin OpAnd
                       (Bin OpAnd (Bin OpGe cacheRow (IntE 0)) (Bin OpGe cacheCol (IntE 0)))
                       (Bin OpLt cacheRow (NumE (num (inHeight convInfo)))))
                     (Bin OpLt cacheCol (NumE (num (inWidth convInfo)))))
                 [For ''i'' (IntE 0) (Var ''cacheC'') (IntE 1)
                   [If (Bin OpGe (Bin OpAdd (Var ''cacheDCorner'') (Var ''i''))
                                 (NumE (num (inChannels convInfo))))
                       [Break] [],
                    Assign (Index (Index (Var ''cache'') (Var ''row''))
                                  (Bin OpAdd (Bin OpMul (Var ''col'') (Var ''cacheC'')) (Var ''i'')))
                           (Call ''getX'' [Var ''batch'', cacheRow, cacheCol,
                                           Bin OpAdd (Var ''cacheDCorner'') (Var ''i'')])]]
                 []]
               [],
              CallS ''memoryBarrierShared'' [],
              CallS ''barrier'' [],
              If (Bin OpGe (Call ''int'' [Field (Var ''gl_GlobalInvocationID'') ''x''])
                           (NumE (num (outChannels convInfo))))
                 [Return] [],
              Assign (Var ''coords'') (Call ''getOutputCoords'' []),
              Decl ''ivec2'' ''xRCCorner'' [] (Some (cornerOf ''coords'')),
              Decl ''int'' ''xRCorner'' [] (Some (Field (Var ''xRCCorner'') ''x'')),
              Decl ''int'' ''xCCorner'' [] (Some (Field (Var ''xRCCorner'') ''y'')),
              Decl ''int'' ''d2'' [] (Some (Field (Var ''coords'') ''w'')),
              Decl ''int'' ''d1'' [] (Some (Bin OpDiv (Var ''d2'') (NumE channelMul))),
              Decl ''int'' ''q'' []
                (Some (Bin OpSub (Var ''d2'') (Bin OpMul (Var ''d1'') (NumE channelMul)))),
              Decl ''float'' ''dotProd'' [] (Some (FloatE (num 0))),
              For ''wR'' (IntE 0) (NumE (num (filterHeight convInfo))) (IntE 1)
               [Decl ''int'' ''xR'' []
                  (Some (Bin OpAdd (Var ''xRCorner'')
                           (Bin OpMul (Var ''wR'') (NumE (num (dilationHeight convInfo)))))),
                If (Bin OpOr (Bin OpLt (Var ''xR'') (IntE 0)) (Bin OpGe (Var ''xR'') (NumE xNumRows)))
                   [Continue] [],
                Decl ''int'' ''sR'' [] (Some (Bin OpSub (Var ''xR'') (Var ''cacheRCorner''))),
                For ''wC'' (IntE 0) (NumE (num (filterWidth convInfo))) (IntE 1)
                 [Decl ''int'' ''xC'' []
                    (Some (Bin OpAdd (Var ''xCCorner'')
                             (Bin OpMul (Var ''wC'') (NumE (num (dilationWidth convInfo)))))),
                  If (Bin OpOr (Bin OpLt (Var ''xC'') (IntE 0)) (Bin OpGe (Var ''xC'') (NumE xNumCols)))
                     [Continue] [],
                  Decl ''int'' ''sC'' []
                    (Some (Bin OpMul (Bin OpSub (Var ''xC'') (Var ''cacheCCorner'')) (Var ''cacheC''))),
                  Decl ''float'' ''xVal'' []
                    (Some (Index (Index (Var ''cache'') (Var ''sR''))
                             (Bin OpSub (Bin OpAdd (Var ''sC'') (Var ''d1'')) (Var ''cacheDCorner'')))),
                  Decl ''float'' ''wVal'' []
                    (Some (Call ''getW'' [Var ''wR'', Var ''wC'', Var ''d1'', Var ''q''])),
                  AddAssign (Var ''dotProd'') (Bin OpMul (Var ''xVal'') (Var ''wVal''))]],
              CallS ''setOutput'' [Var ''dotProd'']]],
          localGroupSize = Some localGroupSize',
          workPerThread = None \<rparr>)"

subsection \<open>\<^verbatim>\<open>Conv2DProgramCS\<close>\<close>

definition Conv2DProgramCS :: "Conv2DInfo \<Rightarrow> GPGPUProgram" where
  "Conv2DProgramCS convInfo =
    (let localGroupSize' = [num 8, num 16];
         inputDepthNearestVec4 = jmul (jfloor (jdiv (num (inChannels convInfo)) (num 4))) (num 4);
         inputDepthVec4Remainder = jrem (num (inChannels convInfo)) (num 4);
         BLOCK_SIZE = localGroupSize' ! 1;
         cacheRow = Bin OpAdd (Var ''cacheRCorner'') (Var ''row'');
         cacheCol = Bin OpAdd (Var ''cacheCCorner'') (Var ''col'');
         cacheAt = (\<lambda>e. Index (Index (Var ''cache'') (Var ''sR'')) e);
         getW = (\<lambda>e. Call ''getW'' [Var ''wR'', Var ''wC'', e, Var ''d2'']);
         sCd1 = Bin OpAdd (Var ''sC'') (Var ''d1'');
         sCn = Bin OpAdd (Var ''sC'') (NumE inputDepthNearestVec4)
     in \<lparr> variableNames = [''x'', ''W''],
          usesPackedTextures = None,
          outputShape = outShape convInfo,
          userCode =
           [ConstDecl ''ivec2'' ''strides''
              (Call ''ivec2'' [NumE (num (strideHeight convInfo)), NumE (num (strideWidth convInfo))]),
            ConstDecl ''ivec2'' ''pads''
              (Call ''ivec2'' [NumE (num (padTop (padInfo convInfo))),
                               NumE (num (padLeft (padInfo convInfo)))]),
            ConstDecl ''int'' ''cacheH'' (IntE 3),
            ConstDecl ''int'' ''cacheW''
              (NumE (jadd (jmul BLOCK_SIZE (num (strideWidth convInfo))) (num 1))),
            ConstDecl ''int'' ''cacheC'' (NumE (num (inChannels convInfo))),
            ConstDecl ''int'' ''cacheHW'' (Bin OpMul (Var ''cacheH'') (Var ''cacheW'')),
            SharedDecl ''float'' ''cache'' [Var ''cacheH'', Bin OpMul (Var ''cacheW'') (Var ''cacheC'')],
            Main
             [Decl ''ivec4'' ''coords'' [] (Some (Call ''getOutputCoords'' [])),
              Decl ''int'' ''batch'' [] (Some (Index (Var ''coords'') (IntE 0))),
              Decl ''int'' ''d2'' [] (Some (Index (Var ''coords'') (IntE 3))),
              Decl ''ivec2'' ''xRCCorner'' []
                (Some (Bin OpSub (Bin OpMul (Field (Var ''coords'') ''yz'') (Var ''strides''))
                                 (Var ''pads''))),
              Decl ''int'' ''xRCorner'' [] (Some (Field (Var ''xRCCorner'') ''x'')),
              Decl ''int'' ''xCCorner'' [] (Some (Field (Var ''xRCCorner'') ''y'')),
              Decl ''ivec2'' ''cacheRCCorner'' []
                (Some (Bin OpMul
                  (Call ''ivec2'' [Field (Var ''coords'') ''y'',
                     Bin OpMul (NumE BLOCK_SIZE)
                       (Bin OpDiv (Field (Var ''coords'') ''z'') (NumE BLOCK_SIZE))])
                  (Var ''strides''))),
              Decl ''int'' ''cacheRCorner'' [] (Some (Field (Var ''cacheRCCorner'') ''x'')),
              Decl ''int'' ''cacheCCorner'' [] (Some (Field (Var ''cacheRCCorner'') ''y'')),
              Decl ''int'' ''index'' [] (Some (Call ''int'' [Var ''gl_LocalInvocationIndex''])),
              If (Bin OpLt (Var ''index'') (Var ''cacheHW''))
               [Decl ''int'' ''row'' [] (Some (Bin OpDiv (Var ''index'') (Var ''cacheW''))),
                Decl ''int'' ''col'' [] (Some (Call ''imod'' [Var ''index'', Var ''cacheW''])),
                If (Bin OpAnd (Bin OpLt cacheRow (NumE (num (inHeight convInfo))))
                              (Bin OpLt cacheCol (NumE (num (inWidth convInfo)))))
                 [For ''i'' (IntE 0) (NumE (num (inChannels convInfo))) (IntE 1)
                   [Assign (Index (Index (Var ''cache'') (Var ''row''))
                              (Bin OpAdd (Bin OpMul (Var ''col'') (NumE (num (inChannels convInfo))))
                                         (Var ''i'')))
                           (Call ''getX'' [Var ''batch'', cacheRow, cacheCol, Var ''i''])]]
                 []]
               [],
              CallS ''memoryBarrierShared'' [],
              CallS ''barrier'' [],
              Decl ''float'' ''dotProd'' [] (Some (FloatE (num 0))),
              For ''wR'' (IntE 0) (NumE (num (filterHeight convInfo))) (IntE 1)
               [Decl ''int'' ''xR'' []
                  (Some (Bin OpAdd (Var ''xRCorner'')
                           (Bin OpMul (Var ''wR'') (NumE (num (dilationHeight convInfo)))))),
                If (Bin OpOr (Bin OpLt (Var ''xR'') (IntE 0))
                             (Bin OpGe (Var ''xR'') (NumE (num (inHeight convInfo)))))
                   [Continue] [],
                Decl ''int'' ''sR'' [] (Some (Bin OpSub (Var ''xR'') (Var ''cacheRCorner''))),
                For ''wC'' (IntE 0) (NumE (num (filterWidth convInfo))) (IntE 1)
                 [Decl ''int'' ''xC'' []
                    (Some (Bin OpAdd (Var ''xCCorner'')
                             (Bin OpMul (Var ''wC'') (NumE (num (dilationWidth convInfo)))))),
                  If (Bin OpOr (Bin OpLt (Var ''xC'') (IntE 0))
                               (Bin OpGe (Var ''xC'') (NumE (num (inWidth convInfo)))))
                     [Continue] [],
                  Decl ''int'' ''sC'' []
                    (Some (Bin OpMul (Bin OpSub (Var ''xC'') (Var ''cacheCCorner''))
                                     (NumE (num (inChannels convInfo))))),
                  For ''d1'' (IntE 0) (NumE inputDepthNearestVec4) (IntE 4)
                   [Decl ''vec4'' ''xValues'' []
                      (Some (Call ''vec4''
                        [cacheAt sCd1,
                         cacheAt (Bin OpAdd sCd1 (IntE 1)),
                         cacheAt (Bin OpAdd sCd1 (IntE 2)),
                         cacheAt (Bin OpAdd sCd1 (IntE 3))])),
                    Decl ''vec4'' ''wValues'' []
                      (Some (Call ''vec4''
                        [getW (Var ''d1''),
                         getW (Bin OpAdd (Var ''d1'') (IntE 1)),
                         getW (Bin OpAdd (Var ''d1'') (IntE 2)),
                         getW (Bin OpAdd (Var ''d1'') (IntE 3))])),
                    AddAssign (Var ''dotProd'') (Call ''dot'' [Var ''xValues'', Var ''wValues''])],
                  If (BoolE (inputDepthVec4Remainder = num 1))
                   [AddAssign (Var ''dotProd'')
                      (Bin OpMul (cacheAt sCn) (getW (NumE inputDepthNearestVec4)))]
                   [If (BoolE (inputDepthVec4Remainder = num 2))
                     [Decl ''vec2'' ''xValues'' []
                        (Some (Call ''vec2'' [cacheAt sCn, cacheAt (Bin OpAdd sCn (IntE 1))])),
                      Decl ''vec2'' ''wValues'' []
                        (Some (Call ''vec2''
                          [getW (NumE inputDepthNearestVec4),
                           getW (Bin OpAdd (NumE inputDepthNearestVec4) (IntE 1))])),
                      AddAssign (Var ''dotProd'') (Call ''dot'' [Var ''xValues'', Var ''wValues''])]
                     [If (BoolE (inputDepthVec4Remainder = num 3))
                       [Decl ''vec3'' ''xValues'' []
                          (Some (Call ''vec3''
                            [cacheAt sCn,
                             cacheAt (Bin OpAdd sCn (IntE 1)),
                             cacheAt (Bin OpAdd sCn (IntE 2))])),
                        Decl ''vec3'' ''wValues'' []
                          (Some (Call ''vec3''
                            [getW (NumE inputDepthNearestVec4),
                             getW (Bin OpAdd (NumE inputDepthNearestVec4) (IntE 1)),
                             getW (Bin OpAdd (NumE inputDepthNearestVec4) (IntE 2))])),
                        AddAssign (Var ''dotProd'') (Call ''dot'' [Var ''xValues'', Var ''wValues''])]
                       []]]]],
              CallS ''setOutput'' [Var ''dotProd'']]],
          localGroupSize = Some localGroupSize',
          workPerThread = None \<rparr>)"

subsection \<open>\<^verbatim>\<open>DecodeMatrixPackedProgram\<close>\<close>

text \<open>
  \<^verbatim>\<open>getGlslDifferences().output\<close> and \<^verbatim>\<open>shader_util.getLogicalCoordinatesFromFlatIndex\<close>
  belong to other files: the name of the output and the function that yields the text
  are parameters.
\<close>

definition DecodeMatrixPackedProgram ::
  "string \<Rightarrow> (string list \<Rightarrow> int list \<Rightarrow> string) \<Rightarrow> int \<times> int \<times> int \<Rightarrow> int \<times> int
     \<Rightarrow> GPGPUProgram" where
  "DecodeMatrixPackedProgram glsl_output getLogicalCoordinatesFromFlatIndex outputShape' texShape =
     \<lparr> variableNames = [''A''],
       usesPackedTextures = Some True,
       outputShape = shape3 outputShape',
       userCode =
        [FunDef ''ivec3'' ''outCoordsFromFlatIndex'' [(''int'', ''index'')]
          [RawS (getLogicalCoordinatesFromFlatIndex [''r'', ''c'', ''d''] (shape3 outputShape')),
           ReturnV (Call ''ivec3'' [Var ''r'', Var ''c'', Var ''d''])],
         Main
          [Decl ''ivec2'' ''resTexRC'' []
             (Some (Call ''ivec2'' [Field (Var ''gl_GlobalInvocationID'') ''yx''])),
           Decl ''int'' ''index'' []
             (Some (Bin OpMul (IntE 4)
               (Bin OpAdd (Bin OpMul (Field (Var ''resTexRC'') ''x'') (NumE (num (snd texShape))))
                          (Field (Var ''resTexRC'') ''y'')))),
           Decl ''vec4'' ''result'' [] (Some (Call ''vec4'' [FloatE (num 0)])),
           For ''i'' (IntE 0) (IntE 4) (IntE 1)
            [Decl ''int'' ''flatIndex'' [] (Some (Bin OpAdd (Var ''index'') (Var ''i''))),
             Decl ''ivec3'' ''rc'' [] (Some (Call ''outCoordsFromFlatIndex'' [Var ''flatIndex''])),
             Assign (Index (Var ''result'') (Var ''i''))
               (Call ''getChannel''
                 [Call ''getA'' [Field (Var ''rc'') ''x'', Field (Var ''rc'') ''y'',
                                 Field (Var ''rc'') ''z''],
                  Call ''vec2'' [Field (Var ''rc'') ''y'', Field (Var ''rc'') ''z'']])],
           CallS ''imageStore''
             [Var glsl_output, Call ''ivec2'' [Field (Var ''gl_GlobalInvocationID'') ''xy''],
              Var ''result'']]],
       localGroupSize = None,
       workPerThread = None \<rparr>"

section \<open>Reading the emitted text\<close>

text \<open>Every statement of a body, nested ones included, in the order of the text.\<close>

fun allStmts :: "stmt \<Rightarrow> stmt list" where
  "allStmts (For v a b c body) = For v a b c body # concat (map allStmts body)"
| "allStmts (If c t e) = If c t e # concat (map allStmts t) @ concat (map allStmts e)"
| "allStmts s = [s]"

text \<open>Every subexpression of an expression.\<close>

fun subExprs :: "expr \<Rightarrow> expr list" where
  "subExprs (Field e f) = Field e f # subExprs e"
| "subExprs (Index e i) = Index e i # subExprs e @ subExprs i"
| "subExprs (Call f args) = Call f args # concat (map subExprs args)"
| "subExprs (Bin op a b) = Bin op a b # subExprs a @ subExprs b"
| "subExprs (Cond c a b) = Cond c a b # subExprs c @ subExprs a @ subExprs b"
| "subExprs e = [e]"

text \<open>The body of \<^verbatim>\<open>main\<close>.\<close>

fun mainBody :: "topdecl list \<Rightarrow> stmt list" where
  "mainBody [] = []"
| "mainBody (Main body # ds) = body"
| "mainBody (d # ds) = mainBody ds"

text \<open>The expressions a statement holds itself, and the ones it reads.\<close>

fun stmtExprs :: "stmt \<Rightarrow> expr list" where
  "stmtExprs (Decl ty x dims init) = dims @ (case init of None \<Rightarrow> [] | Some e \<Rightarrow> [e])"
| "stmtExprs (Assign lhs rhs) = [lhs, rhs]"
| "stmtExprs (AddAssign lhs rhs) = [lhs, rhs]"
| "stmtExprs (For v init bound stp body) = [init, bound, stp]"
| "stmtExprs (If c t e) = [c]"
| "stmtExprs (ReturnV e) = [e]"
| "stmtExprs (CallS f args) = args"
| "stmtExprs s = []"


definition statements :: "stmt list \<Rightarrow> stmt list" where
  "statements body = concat (map allStmts body)"

definition expressions :: "stmt list \<Rightarrow> expr list" where
  "expressions body = concat (map subExprs (concat (map stmtExprs (statements body))))"

text \<open>The initialiser of the first declaration of a name.\<close>

fun firstInit :: "string \<Rightarrow> stmt list \<Rightarrow> expr option" where
  "firstInit x [] = None"
| "firstInit x (Decl ty y dims (Some e) # ss) = (if y = x then Some e else firstInit x ss)"
| "firstInit x (s # ss) = firstInit x ss"

definition declInit :: "string \<Rightarrow> stmt list \<Rightarrow> expr option" where
  "declInit x body = firstInit x (statements body)"

text \<open>The component selections \<^verbatim>\<open>v.f\<close> made on a variable, in the order of the text.\<close>

fun fieldOn :: "string \<Rightarrow> expr \<Rightarrow> string list" where
  "fieldOn v (Field (Var x) f) = (if x = v then [f] else [])"
| "fieldOn v e = []"

definition swizzlesOf :: "string \<Rightarrow> stmt list \<Rightarrow> string list" where
  "swizzlesOf v body = concat (map (fieldOn v) (expressions body))"

text \<open>The variable an assignment target or an access starts from.\<close>

fun baseVar :: "expr \<Rightarrow> string option" where
  "baseVar (Var x) = Some x"
| "baseVar (Index e i) = baseVar e"
| "baseVar (Field e f) = baseVar e"
| "baseVar e = None"

fun assigns :: "string \<Rightarrow> stmt \<Rightarrow> bool" where
  "assigns x (Assign lhs rhs) = (baseVar lhs = Some x)"
| "assigns x s = False"

fun initialises :: "string \<Rightarrow> stmt \<Rightarrow> bool" where
  "initialises x (Decl ty y dims init) = (y = x \<and> init \<noteq> None)"
| "initialises x s = assigns x s"

fun accumulates :: "string \<Rightarrow> stmt \<Rightarrow> bool" where
  "accumulates x (AddAssign lhs rhs) = (baseVar lhs = Some x)"
| "accumulates x s = False"

fun declares :: "string \<Rightarrow> stmt \<Rightarrow> bool" where
  "declares x (Decl ty y dims init) = (y = x)"
| "declares x s = False"

text \<open>A statement that brings a name into scope: a declaration, or a loop by its variable.\<close>

fun binds :: "string \<Rightarrow> stmt \<Rightarrow> bool" where
  "binds x (Decl ty y dims init) = (y = x)"
| "binds x (For v init bound stp body) = (v = x)"
| "binds x s = False"

fun target :: "stmt \<Rightarrow> expr option" where
  "target (Assign lhs rhs) = Some lhs"
| "target (AddAssign lhs rhs) = Some lhs"
| "target s = None"

text \<open>The calls of a function in a body.\<close>

fun callTo :: "string \<Rightarrow> expr \<Rightarrow> bool" where
  "callTo f (Call g args) = (g = f)"
| "callTo f e = False"

definition callsTo :: "string \<Rightarrow> stmt list \<Rightarrow> expr list" where
  "callsTo f body = filter (callTo f) (expressions body)"

text \<open>The loop over the tiles is the one whose variable is \<^verbatim>\<open>t\<close>.\<close>

fun tileLoop :: "stmt \<Rightarrow> bool" where
  "tileLoop (For v init bound stp body) = (v = ''t'')"
| "tileLoop s = False"

definition beforeTileLoop :: "stmt list \<Rightarrow> stmt list" where
  "beforeTileLoop body = takeWhile (\<lambda>s. \<not> tileLoop s) body"



definition writesTo :: "string \<Rightarrow> stmt \<Rightarrow> bool" where
  "writesTo x s = (filter (assigns x) (allStmts s) \<noteq> [])"



fun commits :: "stmt \<Rightarrow> bool" where
  "commits (CallS f args) = (f = ''setOutput'' \<or> f = ''imageStore'')"
| "commits s = False"




text \<open>
  Commits that no test of their coordinates guards. A statement
  \<^verbatim>\<open>if (v >= bound) { continue; }\<close> guards what follows it in its block, until \<^verbatim>\<open>v\<close>
  is declared or assigned again. An \<^verbatim>\<open>imageStore\<close> at \<^verbatim>\<open>ivec2(c, r)\<close> is guarded when
  \<^verbatim>\<open>c\<close> is tested against the bound of the columns and \<^verbatim>\<open>r\<close> against the bound of
  the rows; \<^verbatim>\<open>setOutput\<close> names no coordinate and is never guarded.
\<close>

definition guardOn :: "stmt \<Rightarrow> (string \<times> expr) option" where
  "guardOn s =
     (case s of
        If c t e \<Rightarrow>
          (case c of
             Bin op l b \<Rightarrow>
               (case l of
                  Var v \<Rightarrow> (if op = OpGe \<and> t = [Continue] \<and> e = [] then Some (v, b) else None)
                | _ \<Rightarrow> None)
           | _ \<Rightarrow> None)
      | _ \<Rightarrow> None)"

definition storesInRange :: "expr \<Rightarrow> expr \<Rightarrow> (string \<times> expr) list \<Rightarrow> expr list \<Rightarrow> bool" where
  "storesInRange rowBound colBound g args =
     (case args of
        [img, Call f [Var c, Var r], v] \<Rightarrow>
          f = ''ivec2'' \<and> (c, colBound) \<in> set g \<and> (r, rowBound) \<in> set g
      | _ \<Rightarrow> False)"

definition forget :: "string \<Rightarrow> (string \<times> expr) list \<Rightarrow> (string \<times> expr) list" where
  "forget x g = filter (\<lambda>p. fst p \<noteq> x) g"

fun unguarded :: "expr \<Rightarrow> expr \<Rightarrow> (string \<times> expr) list \<Rightarrow> stmt list \<Rightarrow> stmt list" where
  "unguarded rb cb g [] = []"
| "unguarded rb cb g (s # rest) =
     (case s of
        If c t e \<Rightarrow>
          (case guardOn s of
             Some p \<Rightarrow> unguarded rb cb (p # g) rest
           | None \<Rightarrow> unguarded rb cb g t @ unguarded rb cb g e @ unguarded rb cb g rest)
      | For v init bound stp body \<Rightarrow> unguarded rb cb g body @ unguarded rb cb g rest
      | Decl ty x dims init \<Rightarrow> unguarded rb cb (forget x g) rest
      | Assign lhs rhs \<Rightarrow>
          (case baseVar lhs of
             Some x \<Rightarrow> unguarded rb cb (forget x g) rest
           | None \<Rightarrow> unguarded rb cb g rest)
      | AddAssign lhs rhs \<Rightarrow>
          (case baseVar lhs of
             Some x \<Rightarrow> unguarded rb cb (forget x g) rest
           | None \<Rightarrow> unguarded rb cb g rest)
      | CallS f args \<Rightarrow>
          (if commits s \<and> \<not> storesInRange rb cb g args then [s] else [])
          @ unguarded rb cb g rest
      | _ \<Rightarrow> unguarded rb cb g rest)"

section \<open>Execution of a body by one invocation\<close>

text \<open>
  Integers, booleans and integer vectors are computed. A float, a float vector or an array
  of them is \<open>FloatV\<close>: its value is not tracked. Integers are unbounded.
\<close>

datatype val = IntV int | BoolV bool | VecV "int list" | FloatV

text \<open>What an invocation does to the shared arrays and the output, in order.\<close>

datatype event =
    SharedRead string "int list"
  | SharedWrite string "int list"
  | ImageStore "int list"
  | SetOutput
  | Barrier
  | MemoryBarrierShared

text \<open>
  The identifiers of an invocation and the coordinates the backend's
  \<^verbatim>\<open>getOutputCoords\<close> and \<^verbatim>\<open>getFirstThreadOutputCoords\<close> return to it.
\<close>

record thread =
  gl_LocalInvocationID :: "int list"
  gl_WorkGroupID :: "int list"
  gl_GlobalInvocationID :: "int list"
  gl_LocalInvocationIndex :: int
  getOutputCoords :: "int list"
  getFirstThreadOutputCoords :: "int list"

text \<open>Variables in scope, innermost first.\<close>

type_synonym env = "(string \<times> val) list"

fun nthOpt :: "'a list \<Rightarrow> int \<Rightarrow> 'a option" where
  "nthOpt [] i = None"
| "nthOpt (x # xs) i = (if i = 0 then Some x else if i < 0 then None else nthOpt xs (i - 1))"

definition component :: "char \<Rightarrow> int option" where
  "component c =
     (if c = CHR ''x'' then Some 0 else if c = CHR ''y'' then Some 1
      else if c = CHR ''z'' then Some 2 else if c = CHR ''w'' then Some 3 else None)"

definition swizzle :: "int list \<Rightarrow> string \<Rightarrow> val option" where
  "swizzle xs f =
     (case those (map (\<lambda>c. Option.bind (component c) (nthOpt xs)) f) of
        None \<Rightarrow> None
      | Some [] \<Rightarrow> None
      | Some [i] \<Rightarrow> Some (IntV i)
      | Some is \<Rightarrow> Some (VecV is))"

text \<open>Integer division truncates; by zero it is undefined.\<close>

definition intOp :: "binop \<Rightarrow> int \<Rightarrow> int \<Rightarrow> int option" where
  "intOp op a b =
     (case op of OpAdd \<Rightarrow> Some (a + b) | OpSub \<Rightarrow> Some (a - b) | OpMul \<Rightarrow> Some (a * b)
      | OpDiv \<Rightarrow> (if b = 0 then None else Some (a sdiv b))
      | _ \<Rightarrow> None)"

definition isArith :: "binop \<Rightarrow> bool" where
  "isArith op = (op = OpAdd \<or> op = OpSub \<or> op = OpMul \<or> op = OpDiv)"

fun binopV :: "binop \<Rightarrow> val \<Rightarrow> val \<Rightarrow> val option" where
  "binopV op (IntV a) (IntV b) =
     (case op of OpLt \<Rightarrow> Some (BoolV (a < b)) | OpGe \<Rightarrow> Some (BoolV (a \<ge> b))
      | OpEq \<Rightarrow> Some (BoolV (a = b)) | OpNe \<Rightarrow> Some (BoolV (a \<noteq> b))
      | _ \<Rightarrow> map_option IntV (intOp op a b))"
| "binopV op (VecV xs) (VecV ys) =
     (if length xs = length ys
      then map_option VecV (those (map (\<lambda>(a, b). intOp op a b) (zip xs ys))) else None)"
| "binopV op (VecV xs) (IntV b) = map_option VecV (those (map (\<lambda>a. intOp op a b) xs))"
| "binopV op (IntV a) (VecV ys) = map_option VecV (those (map (\<lambda>b. intOp op a b) ys))"
| "binopV op FloatV (BoolV b) = None"
| "binopV op (BoolV b) FloatV = None"
| "binopV op FloatV v = (if isArith op then Some FloatV else None)"
| "binopV op v FloatV = (if isArith op then Some FloatV else None)"
| "binopV op v w = None"

fun ints :: "val \<Rightarrow> int list option" where
  "ints (IntV i) = Some [i]"
| "ints (VecV xs) = Some xs"
| "ints v = None"

text \<open>
  Modelled from the spec: \<^verbatim>\<open>imod\<close> is the integer-modulo helper the backend supplies.
  Constructors of integer vectors collect their components; any other function is a
  sampler or a float function.
\<close>

definition callResult :: "thread \<Rightarrow> string \<Rightarrow> val list \<Rightarrow> val option" where
  "callResult thr f vs =
     (if f = ''int'' then (case vs of [IntV i] \<Rightarrow> Some (IntV i) | _ \<Rightarrow> None)
      else if f = ''imod'' then
        (case vs of [IntV a, IntV b] \<Rightarrow> (if b = 0 then None else Some (IntV (a - b * (a sdiv b))))
         | _ \<Rightarrow> None)
      else if f = ''ivec2'' \<or> f = ''ivec3'' \<or> f = ''ivec4'' then
        map_option (VecV \<circ> concat) (those (map ints vs))
      else if f = ''getOutputCoords'' then Some (VecV (getOutputCoords thr))
      else if f = ''getFirstThreadOutputCoords'' then Some (VecV (getFirstThreadOutputCoords thr))
      else Some FloatV)"

text \<open>
  The value of an expression and the reads of shared arrays it makes. An interpolated
  number is an integer constant when it is one. \<^verbatim>\<open>a[j][i]\<close> on a shared array \<open>a\<close>
  is a read of that cell.
\<close>

fun evalE :: "thread \<Rightarrow> string list \<Rightarrow> env \<Rightarrow> expr \<Rightarrow> (val \<times> event list) option" where
  "evalE thr sh env (NumE n) =
     (case n of Fin r \<Rightarrow> (if of_int \<lfloor>r\<rfloor> = r then Some (IntV \<lfloor>r\<rfloor>, []) else None)
      | NonFinite \<Rightarrow> None)"
| "evalE thr sh env (IntE i) = Some (IntV i, [])"
| "evalE thr sh env (FloatE n) = Some (FloatV, [])"
| "evalE thr sh env (BoolE b) = Some (BoolV b, [])"
| "evalE thr sh env (Var x) = map_option (\<lambda>v. (v, [])) (map_of env x)"
| "evalE thr sh env (Field e f) =
     (case evalE thr sh env e of
        Some (VecV xs, ev) \<Rightarrow> map_option (\<lambda>v. (v, ev)) (swizzle xs f)
      | Some (FloatV, ev) \<Rightarrow> Some (FloatV, ev)
      | _ \<Rightarrow> None)"
| "evalE thr sh env (Index e i) =
     (case evalE thr sh env i of
        Some (IntV k, evi) \<Rightarrow>
          (case e of
             Index (Var a) j \<Rightarrow>
               (if a \<in> set sh then
                  (case evalE thr sh env j of
                     Some (IntV kj, evj) \<Rightarrow> Some (FloatV, evj @ evi @ [SharedRead a [kj, k]])
                   | _ \<Rightarrow> None)
                else
                  (case evalE thr sh env e of
                     Some (FloatV, eve) \<Rightarrow> Some (FloatV, eve @ evi)
                   | _ \<Rightarrow> None))
           | _ \<Rightarrow>
               (case evalE thr sh env e of
                  Some (VecV xs, eve) \<Rightarrow> map_option (\<lambda>x. (IntV x, eve @ evi)) (nthOpt xs k)
                | Some (FloatV, eve) \<Rightarrow> Some (FloatV, eve @ evi)
                | _ \<Rightarrow> None))
      | _ \<Rightarrow> None)"
| "evalE thr sh env (Call f args) =
     (case those (map (evalE thr sh env) args) of
        None \<Rightarrow> None
      | Some rs \<Rightarrow> map_option (\<lambda>v. (v, concat (map snd rs))) (callResult thr f (map fst rs)))"
| "evalE thr sh env (Bin OpAnd a b) =
     (case evalE thr sh env a of
        Some (BoolV False, ev) \<Rightarrow> Some (BoolV False, ev)
      | Some (BoolV True, ev) \<Rightarrow>
          (case evalE thr sh env b of Some (BoolV c, ev') \<Rightarrow> Some (BoolV c, ev @ ev') | _ \<Rightarrow> None)
      | _ \<Rightarrow> None)"
| "evalE thr sh env (Bin OpOr a b) =
     (case evalE thr sh env a of
        Some (BoolV True, ev) \<Rightarrow> Some (BoolV True, ev)
      | Some (BoolV False, ev) \<Rightarrow>
          (case evalE thr sh env b of Some (BoolV c, ev') \<Rightarrow> Some (BoolV c, ev @ ev') | _ \<Rightarrow> None)
      | _ \<Rightarrow> None)"
| "evalE thr sh env (Bin op a b) =
     (case evalE thr sh env a of
        None \<Rightarrow> None
      | Some (va, ev) \<Rightarrow>
          (case evalE thr sh env b of
             None \<Rightarrow> None
           | Some (vb, ev') \<Rightarrow> map_option (\<lambda>v. (v, ev @ ev')) (binopV op va vb)))"
| "evalE thr sh env (Cond c a b) =
     (case evalE thr sh env c of
        Some (BoolV t, ev) \<Rightarrow>
          (case evalE thr sh env (if t then a else b) of
             None \<Rightarrow> None | Some (v, ev') \<Rightarrow> Some (v, ev @ ev'))
      | _ \<Rightarrow> None)"


datatype flow = Normal | Continuing | Breaking | Returned

fun update :: "string \<Rightarrow> val \<Rightarrow> env \<Rightarrow> env option" where
  "update x v [] = None"
| "update x v ((y, w) # e) =
     (if x = y then Some ((y, v) # e) else map_option (Cons (y, w)) (update x v e))"

definition leaveScope :: "env \<Rightarrow> env \<Rightarrow> env" where
  "leaveScope outer inner = drop (length inner - length outer) inner"

fun store :: "thread \<Rightarrow> string list \<Rightarrow> env \<Rightarrow> expr \<Rightarrow> val \<Rightarrow> (env \<times> event list) option" where
  "store thr sh env (Var x) v = map_option (\<lambda>e. (e, [])) (update x v env)"
| "store thr sh env (Index (Index (Var a) j) i) v =
     (case (evalE thr sh env j, evalE thr sh env i) of
        (Some (IntV kj, evj), Some (IntV ki, evi)) \<Rightarrow>
          (if a \<in> set sh then Some (env, evj @ evi @ [SharedWrite a [kj, ki]])
           else if map_of env a = Some FloatV then Some (env, evj @ evi)
           else None)
      | _ \<Rightarrow> None)"
| "store thr sh env (Index (Var a) i) v =
     (case evalE thr sh env i of
        Some (IntV ki, evi) \<Rightarrow> (if map_of env a = Some FloatV then Some (env, evi) else None)
      | _ \<Rightarrow> None)"
| "store thr sh env lhs v = None"

definition callEvents :: "thread \<Rightarrow> string list \<Rightarrow> env \<Rightarrow> string \<Rightarrow> expr list \<Rightarrow> event list option" where
  "callEvents thr sh env f args =
     (if f = ''barrier'' then Some [Barrier]
      else if f = ''memoryBarrierShared'' then Some [MemoryBarrierShared]
      else if f = ''imageStore'' then
        (case args of
           [img, c, v] \<Rightarrow>
             (case (evalE thr sh env c, evalE thr sh env v) of
                (Some (VecV xs, ev), Some (w, ev')) \<Rightarrow> Some (ev @ ev' @ [ImageStore xs])
              | _ \<Rightarrow> None)
         | _ \<Rightarrow> None)
      else if f = ''setOutput'' then
        (case args of
           [e] \<Rightarrow> (case evalE thr sh env e of Some (w, ev) \<Rightarrow> Some (ev @ [SetOutput]) | None \<Rightarrow> None)
         | _ \<Rightarrow> None)
      else map_option snd (evalE thr sh env (Call f args)))"

text \<open>
  Statements run with fuel, one unit per statement and per loop test. A block ends the
  scope of what it declared. \<^verbatim>\<open>continue\<close>, \<^verbatim>\<open>break\<close> and \<^verbatim>\<open>return\<close> leave
  the rest of the block undone.
\<close>

datatype task = Block "stmt list" | Loop string expr expr "stmt list"
  \<comment> \<open>a block to run, or a loop that has its variable, to test and run\<close>

primrec step :: "nat \<Rightarrow> thread \<Rightarrow> string list \<Rightarrow> task \<Rightarrow> env \<times> event list
               \<Rightarrow> (flow \<times> env \<times> event list) option" where
  "step 0 thr sh task s = None"
| "step (Suc n) thr sh task s =
     (case s of (env, tr) \<Rightarrow>
      (case task of
         Block [] \<Rightarrow> Some (Normal, s)
       | Block (st # rest) \<Rightarrow>
          (case st of
             Decl ty x dims init \<Rightarrow>
               (case init of
                  None \<Rightarrow> step n thr sh (Block rest) ((x, FloatV) # env, tr)
                | Some e \<Rightarrow>
                    (case evalE thr sh env e of
                       None \<Rightarrow> None
                     | Some (v, ev) \<Rightarrow> step n thr sh (Block rest) ((x, v) # env, tr @ ev)))
           | Assign lhs rhs \<Rightarrow>
               (case evalE thr sh env rhs of
                  None \<Rightarrow> None
                | Some (v, ev) \<Rightarrow>
                    (case store thr sh env lhs v of
                       None \<Rightarrow> None
                     | Some (env', ev') \<Rightarrow> step n thr sh (Block rest) (env', tr @ ev @ ev')))
           | AddAssign lhs rhs \<Rightarrow>
               step n thr sh (Block (Assign lhs (Bin OpAdd lhs rhs) # rest)) s
           | If c t e \<Rightarrow>
               (case evalE thr sh env c of
                  Some (BoolV b, ev) \<Rightarrow>
                    (case step n thr sh (Block (if b then t else e)) (env, tr @ ev) of
                       None \<Rightarrow> None
                     | Some (Normal, env', tr') \<Rightarrow>
                         step n thr sh (Block rest) (leaveScope env env', tr')
                     | Some (fl, env', tr') \<Rightarrow> Some (fl, leaveScope env env', tr'))
                | _ \<Rightarrow> None)
           | For v init bound stp body \<Rightarrow>
               (case evalE thr sh env init of
                  Some (IntV a, ev) \<Rightarrow>
                    (case step n thr sh (Loop v bound stp body) ((v, IntV a) # env, tr @ ev) of
                       None \<Rightarrow> None
                     | Some (Normal, env', tr') \<Rightarrow>
                         step n thr sh (Block rest) (leaveScope env env', tr')
                     | Some (fl, env', tr') \<Rightarrow> Some (fl, leaveScope env env', tr'))
                | _ \<Rightarrow> None)
           | Continue \<Rightarrow> Some (Continuing, s)
           | Break \<Rightarrow> Some (Breaking, s)
           | Return \<Rightarrow> Some (Returned, s)
           | ReturnV e \<Rightarrow> Some (Returned, s)
           | CallS f args \<Rightarrow>
               (case callEvents thr sh env f args of
                  None \<Rightarrow> None
                | Some ev \<Rightarrow> step n thr sh (Block rest) (env, tr @ ev))
           | RawS text \<Rightarrow> None)
       | Loop v bound stp body \<Rightarrow>
          (case evalE thr sh env (Bin OpLt (Var v) bound) of
             Some (BoolV False, ev) \<Rightarrow> Some (Normal, env, tr @ ev)
           | Some (BoolV True, ev) \<Rightarrow>
               (case step n thr sh (Block body) (env, tr @ ev) of
                  None \<Rightarrow> None
                | Some (Returned, env', tr') \<Rightarrow> Some (Returned, leaveScope env env', tr')
                | Some (Breaking, env', tr') \<Rightarrow> Some (Normal, leaveScope env env', tr')
                | Some (fl, env', tr') \<Rightarrow>
                    (case step n thr sh (Block [AddAssign (Var v) stp]) (leaveScope env env', tr') of
                       None \<Rightarrow> None
                     | Some (fl', s') \<Rightarrow> step n thr sh (Loop v bound stp body) s'))
           | _ \<Rightarrow> None)))"

definition exec :: "nat \<Rightarrow> thread \<Rightarrow> string list \<Rightarrow> stmt list \<Rightarrow> env \<times> event list
               \<Rightarrow> (flow \<times> env \<times> event list) option" where
  "exec n thr sh ss s = step n thr sh (Block ss) s"

fun sharedNames :: "topdecl list \<Rightarrow> string list" where
  "sharedNames [] = []"
| "sharedNames (SharedDecl ty x dims # ds) = x # sharedNames ds"
| "sharedNames (d # ds) = sharedNames ds"

definition builtins :: "thread \<Rightarrow> env" where
  "builtins thr =
     [(''gl_LocalInvocationID'', VecV (gl_LocalInvocationID thr)),
      (''gl_WorkGroupID'', VecV (gl_WorkGroupID thr)),
      (''gl_GlobalInvocationID'', VecV (gl_GlobalInvocationID thr)),
      (''gl_LocalInvocationIndex'', IntV (gl_LocalInvocationIndex thr)),
      (''outputColor'', FloatV)]"

fun globals :: "thread \<Rightarrow> topdecl list \<Rightarrow> env \<Rightarrow> env option" where
  "globals thr [] env = Some env"
| "globals thr (ConstDecl ty x e # ds) env =
     (case evalE thr [] env e of None \<Rightarrow> None | Some (v, ev) \<Rightarrow> globals thr ds ((x, v) # env))"
| "globals thr (d # ds) env = globals thr ds env"

fun sharedExtents :: "thread \<Rightarrow> env \<Rightarrow> string \<Rightarrow> topdecl list \<Rightarrow> val list option" where
  "sharedExtents thr env a [] = None"
| "sharedExtents thr env a (SharedDecl ty x dims # ds) =
     (if x = a then map_option (map fst) (those (map (evalE thr [] env) dims))
      else sharedExtents thr env a ds)"
| "sharedExtents thr env a (d # ds) = sharedExtents thr env a ds"

text \<open>One invocation runs \<^verbatim>\<open>main\<close> after the constants are set.\<close>

definition run :: "nat \<Rightarrow> thread \<Rightarrow> topdecl list \<Rightarrow> (flow \<times> env \<times> event list) option" where
  "run fuel thr code =
     (case globals thr code (builtins thr) of
        None \<Rightarrow> None
      | Some env \<Rightarrow> exec fuel thr (sharedNames code) (mainBody code) (env, []))"


subsection \<open>Text that does not read the invocation's own identifiers\<close>

text \<open>
  The identifiers that tell an invocation from the others of its workgroup, and its
  workgroup from the others. An expression or a statement is free of them when it names
  none of them and does not call \<^verbatim>\<open>getOutputCoords\<close>. The local invocation index and
  \<^verbatim>\<open>getFirstThreadOutputCoords\<close> are not among them.
\<close>

definition ownIds :: "string list" where
  "ownIds = [''gl_GlobalInvocationID'', ''gl_WorkGroupID'', ''gl_LocalInvocationID'']"





text \<open>
  Two environments that bind the same names in the same order, to the same values but for
  the identifiers above; two outcomes with the same flow, such environments and the same
  events.
\<close>

definition sameBut :: "env \<Rightarrow> env \<Rightarrow> bool" where
  "sameBut env env' =
     list_all2 (\<lambda>p q. fst p = fst q \<and> (fst p \<notin> set ownIds \<longrightarrow> snd p = snd q)) env env'"

definition sameOutcome ::
  "(flow \<times> env \<times> event list) option \<Rightarrow> (flow \<times> env \<times> event list) option \<Rightarrow> bool" where
  "sameOutcome r r' =
     rel_option (\<lambda>p q. fst p = fst q \<and> sameBut (fst (snd p)) (fst (snd q))
                        \<and> snd (snd p) = snd (snd q)) r r'"


section \<open>What the claims observe\<close>

text \<open>
  The size of the last tile: the value \<^verbatim>\<open>sizeTS\<close> is initialised with when \<^verbatim>\<open>t\<close> is
  \<^verbatim>\<open>numTiles - 1\<close>.
\<close>

definition lastTileSize :: "thread \<Rightarrow> stmt list \<Rightarrow> int option" where
  "lastTileSize thr body =
     (case (declInit ''numTiles'' body, declInit ''sizeTS'' body) of
        (Some n, Some e) \<Rightarrow>
          (case evalE thr [] [] n of
             Some (IntV k, ev) \<Rightarrow>
               (case evalE thr [] [(''t'', IntV (k - 1)), (''numTiles'', IntV k)] e of
                  Some (IntV z, ev') \<Rightarrow> Some z
                | _ \<Rightarrow> None)
           | _ \<Rightarrow> None)
      | _ \<Rightarrow> None)"

text \<open>The values \<^verbatim>\<open>d1\<close> and \<^verbatim>\<open>q\<close> are initialised with for an output channel \<^verbatim>\<open>d2\<close>.\<close>

definition channelIndex :: "thread \<Rightarrow> stmt list \<Rightarrow> int \<Rightarrow> (int \<times> int) option" where
  "channelIndex thr body d2 =
     (case (declInit ''d1'' body, declInit ''q'' body) of
        (Some e1, Some e2) \<Rightarrow>
          (case evalE thr [] [(''d2'', IntV d2)] e1 of
             Some (IntV d1, ev) \<Rightarrow>
               (case evalE thr [] [(''d1'', IntV d1), (''d2'', IntV d2)] e2 of
                  Some (IntV q, ev') \<Rightarrow> Some (d1, q)
                | _ \<Rightarrow> None)
           | _ \<Rightarrow> None)
      | _ \<Rightarrow> None)"

text \<open>The cells of a shared array an invocation read or wrote, and where it stored.\<close>

fun readCells :: "string \<Rightarrow> event list \<Rightarrow> int list list" where
  "readCells a [] = []"
| "readCells a (SharedRead b idx # tr) = (if b = a then idx # readCells a tr else readCells a tr)"
| "readCells a (e # tr) = readCells a tr"

fun writtenCells :: "string \<Rightarrow> event list \<Rightarrow> int list list" where
  "writtenCells a [] = []"
| "writtenCells a (SharedWrite b idx # tr) =
     (if b = a then idx # writtenCells a tr else writtenCells a tr)"
| "writtenCells a (e # tr) = writtenCells a tr"

fun imageStores :: "event list \<Rightarrow> int list list" where
  "imageStores [] = []"
| "imageStores (ImageStore xy # tr) = xy # imageStores tr"
| "imageStores (e # tr) = imageStores tr"

fun inExtents :: "int list \<Rightarrow> int list \<Rightarrow> bool" where
  "inExtents [] [] = True"
| "inExtents (n # ext) (i # idx) = (0 \<le> i \<and> i < n \<and> inExtents ext idx)"
| "inExtents ext idx = False"

definition traceOf :: "(flow \<times> env \<times> event list) option \<Rightarrow> event list option" where
  "traceOf r = map_option (\<lambda>(fl, env, tr). tr) r"

text \<open>The extents a shared array is declared with, once the constants are set.\<close>

definition declaredExtents :: "thread \<Rightarrow> topdecl list \<Rightarrow> string \<Rightarrow> val list option" where
  "declaredExtents thr code a =
     (case globals thr code (builtins thr) of
        None \<Rightarrow> None
      | Some env \<Rightarrow> sharedExtents thr env a code)"




section \<open>Properties of the generators\<close>

subsection \<open>The output shape\<close>

text \<open>
  C9. Every constructor stores the output shape it is given in the field
  \<^verbatim>\<open>outputShape\<close> of the program, unchanged: the four matrix products, the two
  convolutions (the shape is \<^verbatim>\<open>convInfo.outShape\<close>) and the packed decode.
\<close>

theorem output_shape_kept:
  "outputShape (MatMulPackedProgramCSV1 aShape oShape tA tB TS addBias act) = shape3 oShape
   \<and> outputShape (MatMulPackedProgramCSV2 aShape oShape tA tB TS WPT addBias act) = shape3 oShape
   \<and> outputShape (constructed (MatMulPackedProgramCSV3 aShape oShape tA tB TS WPT addBias act))
       = shape3 oShape
   \<and> outputShape (constructed (MatMulPackedProgramCSV4 aShape oShape tA tB TS TSK WPT addBias act))
       = shape3 oShape
   \<and> outputShape (DepthwiseConv2DProgramCS convInfo) = outShape convInfo
   \<and> outputShape (Conv2DProgramCS convInfo) = outShape convInfo
   \<and> outputShape (DecodeMatrixPackedProgram out coordsText oShape texShape) = shape3 oShape"
  by (simp add: MatMulPackedProgramCSV1_def MatMulPackedProgramCSV2_def MatMulPackedProgramCSV3_def
      MatMulPackedProgramCSV4_def DepthwiseConv2DProgramCS_def Conv2DProgramCS_def
      DecodeMatrixPackedProgram_def Let_def)

subsection \<open>The worked example of the matrix product\<close>

text \<open>
  C7, as stated: for \<^verbatim>\<open>aShape = [1,4,4]\<close>, \<^verbatim>\<open>outputShape = [1,4,4]\<close>, no transposition
  and \<^verbatim>\<open>TS = 2\<close> the first variant would have the workgroup size \<open>[2, 2]\<close>, the constant
  \<^verbatim>\<open>numTiles\<close> equal to 2 and tiles declared \<open>[2][2]\<close>. It does not: the constant is not 2.
\<close>

theorem matmul_v1_example_numTiles_counterexample:
  "\<not> (localGroupSize (MatMulPackedProgramCSV1 (1, 4, 4) (1, 4, 4) False False 2 False None)
        = Some [num 2, num 2]
      \<and> declInit ''numTiles''
          (mainBody (userCode (MatMulPackedProgramCSV1 (1, 4, 4) (1, 4, 4) False False 2 False None)))
        = Some (NumE (num 2))
      \<and> SharedDecl ''vec4'' ''Asub'' [NumE (num 2), NumE (num 2)]
          \<in> set (userCode (MatMulPackedProgramCSV1 (1, 4, 4) (1, 4, 4) False False 2 False None))
      \<and> SharedDecl ''vec4'' ''Bsub'' [NumE (num 2), NumE (num 2)]
          \<in> set (userCode (MatMulPackedProgramCSV1 (1, 4, 4) (1, 4, 4) False False 2 False None)))"
  by (simp add: MatMulPackedProgramCSV1_def Let_def declInit_def statements_def num_def truthy_def)

text \<open>
  C7, amended: for that input the workgroup size is \<open>[2, 2]\<close>, both tiles are declared
  \<open>[2][2]\<close>, and the constant \<^verbatim>\<open>numTiles\<close> is 1: the shared dimension 4 is packed to 2,
  which one tile of edge 2 covers.
\<close>

theorem matmul_v1_example:
  "localGroupSize (MatMulPackedProgramCSV1 (1, 4, 4) (1, 4, 4) False False 2 False None)
     = Some [num 2, num 2]
   \<and> declInit ''numTiles''
       (mainBody (userCode (MatMulPackedProgramCSV1 (1, 4, 4) (1, 4, 4) False False 2 False None)))
     = Some (NumE (num 1))
   \<and> SharedDecl ''vec4'' ''Asub'' [NumE (num 2), NumE (num 2)]
       \<in> set (userCode (MatMulPackedProgramCSV1 (1, 4, 4) (1, 4, 4) False False 2 False None))
   \<and> SharedDecl ''vec4'' ''Bsub'' [NumE (num 2), NumE (num 2)]
       \<in> set (userCode (MatMulPackedProgramCSV1 (1, 4, 4) (1, 4, 4) False False 2 False None))"
  by (simp add: MatMulPackedProgramCSV1_def Let_def declInit_def statements_def num_def truthy_def)

subsection \<open>The swizzle table\<close>

lemma swizzles_V1:
  "swizzlesOf ''a'' (mainBody (userCode (MatMulPackedProgramCSV1 aShape oShape tA tB TS addBias act)))
     = (if tA then [''xxyy'', ''zzww''] else [''xxzz'', ''yyww''])
   \<and> swizzlesOf ''b'' (mainBody (userCode (MatMulPackedProgramCSV1 aShape oShape tA tB TS addBias act)))
     = (if tB then [''xzxz'', ''ywyw''] else [''xyxy'', ''zwzw''])"
  by (simp add: MatMulPackedProgramCSV1_def Let_def swizzlesOf_def expressions_def statements_def)

lemma swizzles_V2:
  "swizzlesOf ''a''
     (mainBody (userCode (MatMulPackedProgramCSV2 aShape oShape tA tB TS WPT addBias act)))
     = (if tA then [''xxyy'', ''zzww''] else [''xxzz'', ''yyww''])
   \<and> swizzlesOf ''b''
     (mainBody (userCode (MatMulPackedProgramCSV2 aShape oShape tA tB TS WPT addBias act)))
     = (if tB then [''xzxz'', ''ywyw''] else [''xyxy'', ''zwzw''])"
  by (simp add: MatMulPackedProgramCSV2_def Let_def swizzlesOf_def expressions_def statements_def)

lemma swizzles_V3:
  "swizzlesOf ''a'' (mainBody (userCode (constructed
       (MatMulPackedProgramCSV3 aShape oShape tA tB TS WPT addBias act))))
     = (if tA then [''xxyy'', ''zzww''] else [''xxzz'', ''yyww''])
   \<and> swizzlesOf ''b'' (mainBody (userCode (constructed
       (MatMulPackedProgramCSV3 aShape oShape tA tB TS WPT addBias act))))
     = (if tB then [''xzxz'', ''ywyw''] else [''xyxy'', ''zwzw''])"
  by (simp add: MatMulPackedProgramCSV3_def Let_def swizzlesOf_def expressions_def statements_def)

lemma swizzles_V4:
  "swizzlesOf ''a'' (mainBody (userCode (constructed
       (MatMulPackedProgramCSV4 aShape oShape tA tB TS TSK WPT addBias act))))
     = (if tA then [''xxyy'', ''zzww''] else [''xxzz'', ''yyww''])
   \<and> swizzlesOf ''b'' (mainBody (userCode (constructed
       (MatMulPackedProgramCSV4 aShape oShape tA tB TS TSK WPT addBias act))))
     = (if tB then [''xzxz'', ''ywyw''] else [''xyxy'', ''zwzw''])"
  by (simp add: MatMulPackedProgramCSV4_def Let_def swizzlesOf_def expressions_def statements_def)

text \<open>
  C2. In the body of each of the four variants, whatever the shapes and the other
  arguments, the components selected on \<^verbatim>\<open>a\<close> are \<^verbatim>\<open>xxzz\<close> then \<^verbatim>\<open>yyww\<close> when
  \<^verbatim>\<open>transposeA\<close> is false and \<^verbatim>\<open>xxyy\<close> then \<^verbatim>\<open>zzww\<close> when it is true, and the ones
  selected on \<^verbatim>\<open>b\<close> are \<^verbatim>\<open>xyxy\<close> then \<^verbatim>\<open>zwzw\<close> when \<^verbatim>\<open>transposeB\<close> is false and
  \<^verbatim>\<open>xzxz\<close> then \<^verbatim>\<open>ywyw\<close> when it is true.
\<close>

theorem swizzle_table:
  "(swizzlesOf ''a'' (mainBody (userCode (MatMulPackedProgramCSV1 aShape oShape tA tB TS addBias act)))
     = (if tA then [''xxyy'', ''zzww''] else [''xxzz'', ''yyww''])
    \<and> swizzlesOf ''b'' (mainBody (userCode (MatMulPackedProgramCSV1 aShape oShape tA tB TS addBias act)))
     = (if tB then [''xzxz'', ''ywyw''] else [''xyxy'', ''zwzw'']))
   \<and> (swizzlesOf ''a''
        (mainBody (userCode (MatMulPackedProgramCSV2 aShape oShape tA tB TS WPT addBias act)))
     = (if tA then [''xxyy'', ''zzww''] else [''xxzz'', ''yyww''])
    \<and> swizzlesOf ''b''
        (mainBody (userCode (MatMulPackedProgramCSV2 aShape oShape tA tB TS WPT addBias act)))
     = (if tB then [''xzxz'', ''ywyw''] else [''xyxy'', ''zwzw'']))
   \<and> (swizzlesOf ''a'' (mainBody (userCode (constructed
          (MatMulPackedProgramCSV3 aShape oShape tA tB TS WPT addBias act))))
     = (if tA then [''xxyy'', ''zzww''] else [''xxzz'', ''yyww''])
    \<and> swizzlesOf ''b'' (mainBody (userCode (constructed
          (MatMulPackedProgramCSV3 aShape oShape tA tB TS WPT addBias act))))
     = (if tB then [''xzxz'', ''ywyw''] else [''xyxy'', ''zwzw'']))
   \<and> (swizzlesOf ''a'' (mainBody (userCode (constructed
          (MatMulPackedProgramCSV4 aShape oShape tA tB TS TSK WPT addBias act))))
     = (if tA then [''xxyy'', ''zzww''] else [''xxzz'', ''yyww''])
    \<and> swizzlesOf ''b'' (mainBody (userCode (constructed
          (MatMulPackedProgramCSV4 aShape oShape tA tB TS TSK WPT addBias act))))
     = (if tB then [''xzxz'', ''ywyw''] else [''xyxy'', ''zwzw'']))"
  by (simp add: swizzles_V1 swizzles_V2 swizzles_V3 swizzles_V4)

subsection \<open>A bias asked of the third and fourth variants\<close>

text \<open>
  C5, as stated: with \<^verbatim>\<open>addBias\<close> the constructors of the third and fourth variants
  would fail with an error. They do not: at \<^verbatim>\<open>aShape = [1,4,4]\<close>,
  \<^verbatim>\<open>outputShape = [1,4,4]\<close>, \<^verbatim>\<open>TS = 2\<close>, \<^verbatim>\<open>WPT = 1\<close> both return a program, and the
  program of the third has no input \<^verbatim>\<open>bias\<close> and no call of \<^verbatim>\<open>getBiasAtOutCoords\<close>.
\<close>

theorem bias_not_rejected_counterexample:
  "is_Returns (MatMulPackedProgramCSV3 (1, 4, 4) (1, 4, 4) False False 2 1 True None)
   \<and> \<not> is_Throws (MatMulPackedProgramCSV3 (1, 4, 4) (1, 4, 4) False False 2 1 True None)
   \<and> variableNames (constructed (MatMulPackedProgramCSV3 (1, 4, 4) (1, 4, 4) False False 2 1 True None))
       = [''matrixA'', ''matrixB'']
   \<and> callsTo ''getBiasAtOutCoords'' (mainBody (userCode (constructed
         (MatMulPackedProgramCSV3 (1, 4, 4) (1, 4, 4) False False 2 1 True None)))) = []
   \<and> is_Returns (MatMulPackedProgramCSV4 (1, 4, 4) (1, 4, 4) False False 2 2 1 True None)
   \<and> \<not> is_Throws (MatMulPackedProgramCSV4 (1, 4, 4) (1, 4, 4) False False 2 2 1 True None)"
  by (simp add: MatMulPackedProgramCSV3_def MatMulPackedProgramCSV4_def Let_def truthy_def
      callsTo_def expressions_def statements_def)

lemma bias_V3_returns:
  "MatMulPackedProgramCSV3 aShape oShape tA tB TS WPT True act
     = Returns [''bias is not supported'']
         (constructed (MatMulPackedProgramCSV3 aShape oShape tA tB TS WPT False act))
   \<and> variableNames (constructed (MatMulPackedProgramCSV3 aShape oShape tA tB TS WPT True act))
       = [''matrixA'', ''matrixB'']"
  by (simp only: MatMulPackedProgramCSV3_def Let_def completion.sel if_True if_False
      GPGPUProgram.select_convs simp_thms)

lemma bias_V3_calls:
  "callsTo ''getBiasAtOutCoords'' (mainBody (userCode (constructed
         (MatMulPackedProgramCSV3 aShape oShape tA tB TS WPT True act)))) = []"
  by (simp add: MatMulPackedProgramCSV3_def Let_def callsTo_def expressions_def statements_def)

lemma bias_V4_returns:
  "MatMulPackedProgramCSV4 aShape oShape tA tB TS TSK WPT True act
     = Returns [''bias is not supported'']
         (constructed (MatMulPackedProgramCSV4 aShape oShape tA tB TS TSK WPT False act))
   \<and> variableNames (constructed (MatMulPackedProgramCSV4 aShape oShape tA tB TS TSK WPT True act))
       = [''matrixA'', ''matrixB'']"
  by (simp only: MatMulPackedProgramCSV4_def Let_def completion.sel if_True if_False
      GPGPUProgram.select_convs simp_thms)

lemma bias_V4_calls:
  "callsTo ''getBiasAtOutCoords'' (mainBody (userCode (constructed
         (MatMulPackedProgramCSV4 aShape oShape tA tB TS TSK WPT True act)))) = []"
  by (simp add: MatMulPackedProgramCSV4_def Let_def callsTo_def expressions_def statements_def)

text \<open>
  C5, amended: with \<^verbatim>\<open>addBias\<close> the constructors of the third and fourth variants write
  the line \<^verbatim>\<open>bias is not supported\<close> with \<^verbatim>\<open>console.error\<close> and return, without an
  exception, the program they build without \<^verbatim>\<open>addBias\<close>: its inputs are \<^verbatim>\<open>matrixA\<close>
  and \<^verbatim>\<open>matrixB\<close> only and its body never calls \<^verbatim>\<open>getBiasAtOutCoords\<close>.
\<close>

theorem bias_logged_and_ignored:
  "(MatMulPackedProgramCSV3 aShape oShape tA tB TS WPT True act
     = Returns [''bias is not supported'']
         (constructed (MatMulPackedProgramCSV3 aShape oShape tA tB TS WPT False act))
    \<and> variableNames (constructed (MatMulPackedProgramCSV3 aShape oShape tA tB TS WPT True act))
       = [''matrixA'', ''matrixB'']
    \<and> callsTo ''getBiasAtOutCoords'' (mainBody (userCode (constructed
         (MatMulPackedProgramCSV3 aShape oShape tA tB TS WPT True act)))) = [])
   \<and> (MatMulPackedProgramCSV4 aShape oShape tA tB TS TSK WPT True act
     = Returns [''bias is not supported'']
         (constructed (MatMulPackedProgramCSV4 aShape oShape tA tB TS TSK WPT False act))
    \<and> variableNames (constructed (MatMulPackedProgramCSV4 aShape oShape tA tB TS TSK WPT True act))
       = [''matrixA'', ''matrixB'']
    \<and> callsTo ''getBiasAtOutCoords'' (mainBody (userCode (constructed
         (MatMulPackedProgramCSV4 aShape oShape tA tB TS TSK WPT True act)))) = [])"
  using bias_V3_returns [of aShape oShape tA tB TS WPT act]
    bias_V3_calls [of aShape oShape tA tB TS WPT act]
    bias_V4_returns [of aShape oShape tA tB TS TSK WPT act]
    bias_V4_calls [of aShape oShape tA tB TS TSK WPT act]
  by blast

subsection \<open>Initialisation of the accumulators\<close>

lemma zero_init_V1:
  "filter (initialises ''result'') (statements (beforeTileLoop (mainBody (userCode
      (MatMulPackedProgramCSV1 aShape oShape tA tB TS addBias act)))))
     = [Decl ''vec4'' ''result'' [] (Some (Call ''vec4'' [IntE 0]))]
   \<and> map target (filter (accumulates ''result'') (statements (filter tileLoop (mainBody (userCode
      (MatMulPackedProgramCSV1 aShape oShape tA tB TS addBias act))))))
     = [Some (Var ''result'')]"
  by (cases addBias; cases "truthy act";
      simp add: MatMulPackedProgramCSV1_def Let_def statements_def beforeTileLoop_def
        split del: if_split)

lemma no_init_V2:
  "filter (declares ''result'') (beforeTileLoop (mainBody (userCode
      (MatMulPackedProgramCSV2 aShape oShape tA tB TS WPT addBias act))))
     = [Decl ''vec4'' ''result'' [NumE (num WPT)] None]
   \<and> filter (initialises ''result'') (statements
        (beforeTileLoop (mainBody (userCode
            (MatMulPackedProgramCSV2 aShape oShape tA tB TS WPT addBias act)))
         @ filter tileLoop (mainBody (userCode
            (MatMulPackedProgramCSV2 aShape oShape tA tB TS WPT addBias act)))))
     = []
   \<and> map target (filter (accumulates ''result'') (statements (filter tileLoop (mainBody (userCode
      (MatMulPackedProgramCSV2 aShape oShape tA tB TS WPT addBias act))))))
     = [Some (Index (Var ''result'') (Var ''w''))]"
  by (cases addBias; cases "truthy act";
      simp add: MatMulPackedProgramCSV2_def Let_def statements_def beforeTileLoop_def
        split del: if_split)

lemma zero_init_V3:
  "filter (declares ''result'') (beforeTileLoop (mainBody (userCode (constructed
      (MatMulPackedProgramCSV3 aShape oShape tA tB TS WPT addBias act)))))
     = [Decl ''vec4'' ''result'' [NumE (num WPT), NumE (num WPT)] None]
   \<and> filter (writesTo ''result'') (beforeTileLoop (mainBody (userCode (constructed
      (MatMulPackedProgramCSV3 aShape oShape tA tB TS WPT addBias act)))))
     = [For ''innerRow'' (IntE 0) (NumE (num WPT)) (IntE 1)
         [For ''innerCol'' (IntE 0) (NumE (num WPT)) (IntE 1)
           [Assign (Index (Index (Var ''result'') (Var ''innerRow'')) (Var ''innerCol''))
                   (Call ''vec4'' [IntE 0])]]]
   \<and> map target (filter (accumulates ''result'') (statements (filter tileLoop (mainBody (userCode
      (constructed (MatMulPackedProgramCSV3 aShape oShape tA tB TS WPT addBias act)))))))
     = [Some (Index (Index (Var ''result'') (Var ''innerRow'')) (Var ''innerCol''))]"
  by (cases "truthy act";
      simp add: MatMulPackedProgramCSV3_def Let_def statements_def beforeTileLoop_def writesTo_def
        split del: if_split)

lemma zero_init_V4:
  "filter (declares ''acc'') (beforeTileLoop (mainBody (userCode (constructed
      (MatMulPackedProgramCSV4 aShape oShape tA tB TS TSK WPT addBias act)))))
     = [Decl ''vec4'' ''acc'' [NumE (num WPT), NumE (num WPT)] None]
   \<and> filter (writesTo ''acc'') (beforeTileLoop (mainBody (userCode (constructed
      (MatMulPackedProgramCSV4 aShape oShape tA tB TS TSK WPT addBias act)))))
     = [For ''wm'' (IntE 0) (NumE (num WPT)) (IntE 1)
         [For ''wn'' (IntE 0) (NumE (num WPT)) (IntE 1)
           [Assign (Index (Index (Var ''acc'') (Var ''wm'')) (Var ''wn''))
                   (Call ''vec4'' [IntE 0])]]]
   \<and> map target (filter (accumulates ''acc'') (statements (filter tileLoop (mainBody (userCode
      (constructed (MatMulPackedProgramCSV4 aShape oShape tA tB TS TSK WPT addBias act)))))))
     = [Some (Index (Index (Var ''acc'') (Var ''wm'')) (Var ''wn''))]"
  by (cases "truthy act";
      simp add: MatMulPackedProgramCSV4_def Let_def statements_def beforeTileLoop_def writesTo_def
        split del: if_split)

lemma single_V1:
  "filter (binds ''result'') (statements (mainBody (userCode (MatMulPackedProgramCSV1 aShape oShape tA tB TS addBias act))))
     = [Decl ''vec4'' ''result'' [] (Some (Call ''vec4'' [IntE 0]))]
   \<and> filter (binds ''result'') (beforeTileLoop (mainBody (userCode (MatMulPackedProgramCSV1 aShape oShape tA tB TS addBias act))))
     = [Decl ''vec4'' ''result'' [] (Some (Call ''vec4'' [IntE 0]))]"
  by (cases addBias; cases "truthy act";
      simp add: MatMulPackedProgramCSV1_def Let_def statements_def beforeTileLoop_def
        split del: if_split)

lemma single_V2:
  "filter (binds ''result'') (statements (mainBody (userCode (MatMulPackedProgramCSV2 aShape oShape tA tB TS WPT addBias act))))
     = [Decl ''vec4'' ''result'' [NumE (num WPT)] None]"
  by (cases addBias; cases "truthy act";
      simp add: MatMulPackedProgramCSV2_def Let_def statements_def
        split del: if_split)

lemma single_V3:
  "filter (binds ''result'') (statements (mainBody (userCode (constructed
      (MatMulPackedProgramCSV3 aShape oShape tA tB TS WPT addBias act)))))
     = [Decl ''vec4'' ''result'' [NumE (num WPT), NumE (num WPT)] None]
   \<and> filter (\<lambda>s. binds ''result'' s \<or> writesTo ''result'' s) (beforeTileLoop (mainBody (userCode (constructed
      (MatMulPackedProgramCSV3 aShape oShape tA tB TS WPT addBias act)))))
     = [Decl ''vec4'' ''result'' [NumE (num WPT), NumE (num WPT)] None,
        For ''innerRow'' (IntE 0) (NumE (num WPT)) (IntE 1)
         [For ''innerCol'' (IntE 0) (NumE (num WPT)) (IntE 1)
           [Assign (Index (Index (Var ''result'') (Var ''innerRow'')) (Var ''innerCol''))
                   (Call ''vec4'' [IntE 0])]]]
   \<and> map target (filter (accumulates ''result'') (statements (mainBody (userCode (constructed
      (MatMulPackedProgramCSV3 aShape oShape tA tB TS WPT addBias act))))))
     = [Some (Index (Index (Var ''result'') (Var ''innerRow'')) (Var ''innerCol''))]"
  by (cases "truthy act";
      simp add: MatMulPackedProgramCSV3_def Let_def statements_def beforeTileLoop_def writesTo_def
        split del: if_split)

lemma single_V4:
  "filter (binds ''acc'') (statements (mainBody (userCode (constructed
      (MatMulPackedProgramCSV4 aShape oShape tA tB TS TSK WPT addBias act)))))
     = [Decl ''vec4'' ''acc'' [NumE (num WPT), NumE (num WPT)] None]
   \<and> filter (\<lambda>s. binds ''acc'' s \<or> writesTo ''acc'' s) (beforeTileLoop (mainBody (userCode (constructed
      (MatMulPackedProgramCSV4 aShape oShape tA tB TS TSK WPT addBias act)))))
     = [Decl ''vec4'' ''acc'' [NumE (num WPT), NumE (num WPT)] None,
        For ''wm'' (IntE 0) (NumE (num WPT)) (IntE 1)
         [For ''wn'' (IntE 0) (NumE (num WPT)) (IntE 1)
           [Assign (Index (Index (Var ''acc'') (Var ''wm'')) (Var ''wn''))
                   (Call ''vec4'' [IntE 0])]]]
   \<and> map target (filter (accumulates ''acc'') (statements (mainBody (userCode (constructed
      (MatMulPackedProgramCSV4 aShape oShape tA tB TS TSK WPT addBias act))))))
     = [Some (Index (Index (Var ''acc'') (Var ''wm'')) (Var ''wn''))]"
  by (cases "truthy act";
      simp add: MatMulPackedProgramCSV4_def Let_def statements_def beforeTileLoop_def writesTo_def
        split del: if_split)

text \<open>
  C10. In each variant the accumulator is bound once in the whole body, nested statements
  and loop variables included, by a declaration at the top level of the body before the
  loop over the tiles: every later use of the name is a use of that variable. The first
  variant declares \<^verbatim>\<open>result\<close> with the initialiser \<^verbatim>\<open>vec4(0)\<close>. The third and the
  fourth declare their array of accumulators \<open>[WPT][WPT]\<close> without initialiser; the only
  other statement before the loop over the tiles that binds or writes the name follows the
  declaration and is two nested loops over \<open>WPT\<close> that set every entry to \<^verbatim>\<open>vec4(0)\<close>;
  and the only \<^verbatim>\<open>+=\<close> into the array in the whole body is the one inside the loop over
  the tiles. The second variant declares \<^verbatim>\<open>vec4 result[WPT]\<close> with no initialiser, and
  nothing before or inside the loop over the tiles assigns to it. In all four the loop over
  the tiles adds to the accumulator with \<^verbatim>\<open>+=\<close>.
\<close>

theorem accumulators_initialised_but_v2:
  "(filter (initialises ''result'') (statements (beforeTileLoop (mainBody (userCode (MatMulPackedProgramCSV1 aShape oShape tA tB TS addBias act)))))
     = [Decl ''vec4'' ''result'' [] (Some (Call ''vec4'' [IntE 0]))]
   \<and> map target (filter (accumulates ''result'') (statements (filter tileLoop (mainBody (userCode (MatMulPackedProgramCSV1 aShape oShape tA tB TS addBias act))))))
     = [Some (Var ''result'')]
   \<and> filter (binds ''result'') (statements (mainBody (userCode (MatMulPackedProgramCSV1 aShape oShape tA tB TS addBias act))))
     = [Decl ''vec4'' ''result'' [] (Some (Call ''vec4'' [IntE 0]))]
   \<and> filter (binds ''result'') (beforeTileLoop (mainBody (userCode (MatMulPackedProgramCSV1 aShape oShape tA tB TS addBias act))))
     = [Decl ''vec4'' ''result'' [] (Some (Call ''vec4'' [IntE 0]))])
   \<and> (filter (declares ''result'') (beforeTileLoop (mainBody (userCode (MatMulPackedProgramCSV2 aShape oShape tA tB TS WPT addBias act))))
     = [Decl ''vec4'' ''result'' [NumE (num WPT)] None]
   \<and> filter (initialises ''result'') (statements
        (beforeTileLoop (mainBody (userCode (MatMulPackedProgramCSV2 aShape oShape tA tB TS WPT addBias act)))
         @ filter tileLoop (mainBody (userCode (MatMulPackedProgramCSV2 aShape oShape tA tB TS WPT addBias act)))))
     = []
   \<and> map target (filter (accumulates ''result'') (statements (filter tileLoop (mainBody (userCode (MatMulPackedProgramCSV2 aShape oShape tA tB TS WPT addBias act))))))
     = [Some (Index (Var ''result'') (Var ''w''))]
   \<and> filter (binds ''result'') (statements (mainBody (userCode (MatMulPackedProgramCSV2 aShape oShape tA tB TS WPT addBias act))))
     = [Decl ''vec4'' ''result'' [NumE (num WPT)] None])
   \<and> (filter (declares ''result'') (beforeTileLoop (mainBody (userCode (constructed
      (MatMulPackedProgramCSV3 aShape oShape tA tB TS WPT addBias act)))))
     = [Decl ''vec4'' ''result'' [NumE (num WPT), NumE (num WPT)] None]
   \<and> filter (writesTo ''result'') (beforeTileLoop (mainBody (userCode (constructed
      (MatMulPackedProgramCSV3 aShape oShape tA tB TS WPT addBias act)))))
     = [For ''innerRow'' (IntE 0) (NumE (num WPT)) (IntE 1)
         [For ''innerCol'' (IntE 0) (NumE (num WPT)) (IntE 1)
           [Assign (Index (Index (Var ''result'') (Var ''innerRow'')) (Var ''innerCol''))
                   (Call ''vec4'' [IntE 0])]]]
   \<and> map target (filter (accumulates ''result'') (statements (filter tileLoop (mainBody (userCode (constructed
      (MatMulPackedProgramCSV3 aShape oShape tA tB TS WPT addBias act)))))))
     = [Some (Index (Index (Var ''result'') (Var ''innerRow'')) (Var ''innerCol''))]
   \<and> filter (binds ''result'') (statements (mainBody (userCode (constructed
      (MatMulPackedProgramCSV3 aShape oShape tA tB TS WPT addBias act)))))
     = [Decl ''vec4'' ''result'' [NumE (num WPT), NumE (num WPT)] None]
   \<and> filter (\<lambda>s. binds ''result'' s \<or> writesTo ''result'' s) (beforeTileLoop (mainBody (userCode (constructed
      (MatMulPackedProgramCSV3 aShape oShape tA tB TS WPT addBias act)))))
     = [Decl ''vec4'' ''result'' [NumE (num WPT), NumE (num WPT)] None,
        For ''innerRow'' (IntE 0) (NumE (num WPT)) (IntE 1)
         [For ''innerCol'' (IntE 0) (NumE (num WPT)) (IntE 1)
           [Assign (Index (Index (Var ''result'') (Var ''innerRow'')) (Var ''innerCol''))
                   (Call ''vec4'' [IntE 0])]]]
   \<and> map target (filter (accumulates ''result'') (statements (mainBody (userCode (constructed
      (MatMulPackedProgramCSV3 aShape oShape tA tB TS WPT addBias act))))))
     = [Some (Index (Index (Var ''result'') (Var ''innerRow'')) (Var ''innerCol''))])
   \<and> (filter (declares ''acc'') (beforeTileLoop (mainBody (userCode (constructed
      (MatMulPackedProgramCSV4 aShape oShape tA tB TS TSK WPT addBias act)))))
     = [Decl ''vec4'' ''acc'' [NumE (num WPT), NumE (num WPT)] None]
   \<and> filter (writesTo ''acc'') (beforeTileLoop (mainBody (userCode (constructed
      (MatMulPackedProgramCSV4 aShape oShape tA tB TS TSK WPT addBias act)))))
     = [For ''wm'' (IntE 0) (NumE (num WPT)) (IntE 1)
         [For ''wn'' (IntE 0) (NumE (num WPT)) (IntE 1)
           [Assign (Index (Index (Var ''acc'') (Var ''wm'')) (Var ''wn''))
                   (Call ''vec4'' [IntE 0])]]]
   \<and> map target (filter (accumulates ''acc'') (statements (filter tileLoop (mainBody (userCode (constructed
      (MatMulPackedProgramCSV4 aShape oShape tA tB TS TSK WPT addBias act)))))))
     = [Some (Index (Index (Var ''acc'') (Var ''wm'')) (Var ''wn''))]
   \<and> filter (binds ''acc'') (statements (mainBody (userCode (constructed
      (MatMulPackedProgramCSV4 aShape oShape tA tB TS TSK WPT addBias act)))))
     = [Decl ''vec4'' ''acc'' [NumE (num WPT), NumE (num WPT)] None]
   \<and> filter (\<lambda>s. binds ''acc'' s \<or> writesTo ''acc'' s) (beforeTileLoop (mainBody (userCode (constructed
      (MatMulPackedProgramCSV4 aShape oShape tA tB TS TSK WPT addBias act)))))
     = [Decl ''vec4'' ''acc'' [NumE (num WPT), NumE (num WPT)] None,
        For ''wm'' (IntE 0) (NumE (num WPT)) (IntE 1)
         [For ''wn'' (IntE 0) (NumE (num WPT)) (IntE 1)
           [Assign (Index (Index (Var ''acc'') (Var ''wm'')) (Var ''wn''))
                   (Call ''vec4'' [IntE 0])]]]
   \<and> map target (filter (accumulates ''acc'') (statements (mainBody (userCode (constructed
      (MatMulPackedProgramCSV4 aShape oShape tA tB TS TSK WPT addBias act))))))
     = [Some (Index (Index (Var ''acc'') (Var ''wm'')) (Var ''wn''))])"
  by (simp add: zero_init_V1 no_init_V2 zero_init_V3 zero_init_V4
      single_V1 single_V2 single_V3 single_V4)

subsection \<open>The phases of the depthwise body\<close>


















lemma sameOutcome_None [simp]: "sameOutcome None r' \<longleftrightarrow> r' = None"
  by (cases r'; simp add: sameOutcome_def)

lemma sameOutcome_Some [simp]:
  "sameOutcome (Some (fl, e, t)) r' \<longleftrightarrow> (\<exists>e'. r' = Some (fl, e', t) \<and> sameBut e e')"
  by (cases r'; auto simp add: sameOutcome_def)









subsection \<open>Tiles along the shared dimension\<close>

lemma evalE_num: "evalE thr sh env (NumE (num k)) = Some (IntV k, [])"
  by (simp add: num_def)

lemma jceil_jdiv_num:
  "T \<noteq> 0 \<Longrightarrow> jceil (jdiv (num R) (num T)) = num \<lceil>rat_of_int R / rat_of_int T\<rceil>"
  by (simp add: num_def)

lemma jceil_half: "jceil (jdiv (num a) (num 2)) = num \<lceil>rat_of_int a / 2\<rceil>"
  by (simp add: num_def)

lemma jrem_num:
  assumes "0 \<le> R" "0 < T"
  shows "jrem (num R) (num T) = num (R mod T)"
proof -
  have "0 \<le> rat_of_int R / rat_of_int T" using assms by simp
  then have "trunc (rat_of_int R / rat_of_int T) = R div T"
    by (simp add: trunc_def floor_divide_of_int_eq)
  moreover have "rat_of_int R - rat_of_int T * rat_of_int (R div T) = rat_of_int (R mod T)"
    by (simp add: minus_mult_div_eq_mod flip: of_int_mult of_int_diff)
  ultimately show ?thesis using assms by (simp add: num_def)
qed

lemma ceil_div_last:
  assumes "0 < T" "R mod T \<noteq> 0"
  shows "R - T * (\<lceil>rat_of_int R / rat_of_int T\<rceil> - 1) = R mod T"
proof -
  have "\<lceil>rat_of_int R / rat_of_int T\<rceil> = R div T + 1"
    using assms by (simp add: ceiling_divide_eq_div zdiv_zminus1_eq_if)
  then show ?thesis by (simp add: minus_mult_div_eq_mod)
qed

lemma lastTileSize_generic:
  assumes n: "declInit ''numTiles'' body = Some (NumE (jceil (jdiv (num R) (num T))))"
    and s: "declInit ''sizeTS'' body = Some
      (Cond (Bin OpAnd (Bin OpEq (Var ''t'') (Bin OpSub (Var ''numTiles'') (IntE 1)))
                       (Bin OpNe (NumE (jrem (num R) (num T))) (IntE 0)))
            (NumE (jrem (num R) (num T)))
            (NumE (num T)))"
    and "0 < R" "0 < T"
  shows "declInit ''numTiles'' body = Some (NumE (num \<lceil>rat_of_int R / rat_of_int T\<rceil>))
    \<and> lastTileSize thr body
        = Some (if R mod T \<noteq> 0 then R - T * (\<lceil>rat_of_int R / rat_of_int T\<rceil> - 1) else T)"
proof -
  have c: "jceil (jdiv (num R) (num T)) = num \<lceil>rat_of_int R / rat_of_int T\<rceil>"
    using assms by (simp add: jceil_jdiv_num)
  have r: "jrem (num R) (num T) = num (R mod T)"
    using assms by (simp add: jrem_num)
  have "lastTileSize thr body = Some (if R mod T \<noteq> 0 then R mod T else T)"
    unfolding lastTileSize_def n s c r
    by (simp add: num_def intOp_def)
  then show ?thesis using assms n c by (simp add: ceil_div_last)
qed

lemma tiles_V1:
  assumes "R = \<lceil>rat_of_int (if tA then a1 else a2) / 2\<rceil>" "0 < R" "0 < T"
  shows "declInit ''numTiles'' (mainBody (userCode (MatMulPackedProgramCSV1 (a0, a1, a2) oShape tA tB T addBias act)))
           = Some (NumE (num \<lceil>rat_of_int R / rat_of_int T\<rceil>))
    \<and> lastTileSize thr (mainBody (userCode (MatMulPackedProgramCSV1 (a0, a1, a2) oShape tA tB T addBias act)))
        = Some (if R mod T \<noteq> 0 then R - T * (\<lceil>rat_of_int R / rat_of_int T\<rceil> - 1) else T)"
proof (rule lastTileSize_generic)
  show "declInit ''numTiles'' (mainBody (userCode (MatMulPackedProgramCSV1 (a0, a1, a2) oShape tA tB T addBias act)))
          = Some (NumE (jceil (jdiv (num R) (num T))))"
    unfolding assms(1)
    by (simp add: MatMulPackedProgramCSV1_def Let_def declInit_def statements_def jceil_half)
  show "declInit ''sizeTS'' (mainBody (userCode (MatMulPackedProgramCSV1 (a0, a1, a2) oShape tA tB T addBias act))) = Some
      (Cond (Bin OpAnd (Bin OpEq (Var ''t'') (Bin OpSub (Var ''numTiles'') (IntE 1)))
                       (Bin OpNe (NumE (jrem (num R) (num T))) (IntE 0)))
            (NumE (jrem (num R) (num T)))
            (NumE (num T)))"
    unfolding assms(1)
    by (simp add: MatMulPackedProgramCSV1_def Let_def declInit_def statements_def jceil_half)
qed (use assms in simp_all)

lemma tiles_V2:
  assumes "R = \<lceil>rat_of_int (if tA then a1 else a2) / 2\<rceil>" "0 < R" "0 < T"
  shows "declInit ''numTiles'' (mainBody (userCode (MatMulPackedProgramCSV2 (a0, a1, a2) oShape tA tB T WPT addBias act)))
           = Some (NumE (num \<lceil>rat_of_int R / rat_of_int T\<rceil>))
    \<and> lastTileSize thr (mainBody (userCode (MatMulPackedProgramCSV2 (a0, a1, a2) oShape tA tB T WPT addBias act)))
        = Some (if R mod T \<noteq> 0 then R - T * (\<lceil>rat_of_int R / rat_of_int T\<rceil> - 1) else T)"
proof (rule lastTileSize_generic)
  show "declInit ''numTiles'' (mainBody (userCode (MatMulPackedProgramCSV2 (a0, a1, a2) oShape tA tB T WPT addBias act)))
          = Some (NumE (jceil (jdiv (num R) (num T))))"
    unfolding assms(1)
    by (simp add: MatMulPackedProgramCSV2_def Let_def declInit_def statements_def jceil_half)
  show "declInit ''sizeTS'' (mainBody (userCode (MatMulPackedProgramCSV2 (a0, a1, a2) oShape tA tB T WPT addBias act))) = Some
      (Cond (Bin OpAnd (Bin OpEq (Var ''t'') (Bin OpSub (Var ''numTiles'') (IntE 1)))
                       (Bin OpNe (NumE (jrem (num R) (num T))) (IntE 0)))
            (NumE (jrem (num R) (num T)))
            (NumE (num T)))"
    unfolding assms(1)
    by (simp add: MatMulPackedProgramCSV2_def Let_def declInit_def statements_def jceil_half)
qed (use assms in simp_all)

lemma tiles_V3:
  assumes "R = \<lceil>rat_of_int (if tA then a1 else a2) / 2\<rceil>" "0 < R" "0 < T"
  shows "declInit ''numTiles'' (mainBody (userCode (constructed
      (MatMulPackedProgramCSV3 (a0, a1, a2) oShape tA tB T WPT addBias act))))
           = Some (NumE (num \<lceil>rat_of_int R / rat_of_int T\<rceil>))
    \<and> lastTileSize thr (mainBody (userCode (constructed
      (MatMulPackedProgramCSV3 (a0, a1, a2) oShape tA tB T WPT addBias act))))
        = Some (if R mod T \<noteq> 0 then R - T * (\<lceil>rat_of_int R / rat_of_int T\<rceil> - 1) else T)"
proof (rule lastTileSize_generic)
  show "declInit ''numTiles'' (mainBody (userCode (constructed
      (MatMulPackedProgramCSV3 (a0, a1, a2) oShape tA tB T WPT addBias act))))
          = Some (NumE (jceil (jdiv (num R) (num T))))"
    unfolding assms(1)
    by (simp add: MatMulPackedProgramCSV3_def Let_def declInit_def statements_def jceil_half)
  show "declInit ''sizeTS'' (mainBody (userCode (constructed
      (MatMulPackedProgramCSV3 (a0, a1, a2) oShape tA tB T WPT addBias act)))) = Some
      (Cond (Bin OpAnd (Bin OpEq (Var ''t'') (Bin OpSub (Var ''numTiles'') (IntE 1)))
                       (Bin OpNe (NumE (jrem (num R) (num T))) (IntE 0)))
            (NumE (jrem (num R) (num T)))
            (NumE (num T)))"
    unfolding assms(1)
    by (simp add: MatMulPackedProgramCSV3_def Let_def declInit_def statements_def jceil_half)
qed (use assms in simp_all)

lemma tiles_V4:
  assumes "R = \<lceil>rat_of_int (if tA then a1 else a2) / 2\<rceil>" "0 < R" "0 < T"
  shows "declInit ''numTiles'' (mainBody (userCode (constructed
      (MatMulPackedProgramCSV4 (a0, a1, a2) oShape tA tB TS T WPT addBias act))))
           = Some (NumE (num \<lceil>rat_of_int R / rat_of_int T\<rceil>))
    \<and> lastTileSize thr (mainBody (userCode (constructed
      (MatMulPackedProgramCSV4 (a0, a1, a2) oShape tA tB TS T WPT addBias act))))
        = Some (if R mod T \<noteq> 0 then R - T * (\<lceil>rat_of_int R / rat_of_int T\<rceil> - 1) else T)"
proof (rule lastTileSize_generic)
  show "declInit ''numTiles'' (mainBody (userCode (constructed
      (MatMulPackedProgramCSV4 (a0, a1, a2) oShape tA tB TS T WPT addBias act))))
          = Some (NumE (jceil (jdiv (num R) (num T))))"
    unfolding assms(1)
    by (simp add: MatMulPackedProgramCSV4_def Let_def declInit_def statements_def jceil_half)
  show "declInit ''sizeTS'' (mainBody (userCode (constructed
      (MatMulPackedProgramCSV4 (a0, a1, a2) oShape tA tB TS T WPT addBias act)))) = Some
      (Cond (Bin OpAnd (Bin OpEq (Var ''t'') (Bin OpSub (Var ''numTiles'') (IntE 1)))
                       (Bin OpNe (NumE (jrem (num R) (num T))) (IntE 0)))
            (NumE (jrem (num R) (num T)))
            (NumE (num T)))"
    unfolding assms(1)
    by (simp add: MatMulPackedProgramCSV4_def Let_def declInit_def statements_def jceil_half)
qed (use assms in simp_all)


lemma ceiling_rat_numeral:
  "\<lceil>numeral a / numeral b :: rat\<rceil> = - (- numeral a div numeral b)"
  using ceiling_divide_eq_div [of "numeral a" "numeral b", where ?'a = rat] by simp

text \<open>
  C1. Let \<open>R\<close> be the packed shared dimension, the ceiling of half the shared dimension,
  and \<open>T\<close> the edge of the tiles along it (\<^verbatim>\<open>TS\<close> in the first three variants,
  \<^verbatim>\<open>TSK\<close> in the fourth), both positive. In each of the four variants the constant
  \<^verbatim>\<open>numTiles\<close> is the ceiling of \<open>R / T\<close>, and the value \<^verbatim>\<open>sizeTS\<close> takes in the last
  tile is \<open>R - T * (numTiles - 1)\<close> when \<open>T\<close> does not divide \<open>R\<close> and \<open>T\<close> when it does.
\<close>

theorem tile_remainder:
  assumes "R = \<lceil>rat_of_int (if tA then a1 else a2) / 2\<rceil>" "0 < R" "0 < T"
  shows
   "(declInit ''numTiles''
       (mainBody (userCode (MatMulPackedProgramCSV1 (a0, a1, a2) oShape tA tB T addBias act)))
       = Some (NumE (num \<lceil>rat_of_int R / rat_of_int T\<rceil>))
     \<and> lastTileSize thr
       (mainBody (userCode (MatMulPackedProgramCSV1 (a0, a1, a2) oShape tA tB T addBias act)))
       = Some (if R mod T \<noteq> 0 then R - T * (\<lceil>rat_of_int R / rat_of_int T\<rceil> - 1) else T))
    \<and> (declInit ''numTiles''
       (mainBody (userCode (MatMulPackedProgramCSV2 (a0, a1, a2) oShape tA tB T WPT addBias act)))
       = Some (NumE (num \<lceil>rat_of_int R / rat_of_int T\<rceil>))
     \<and> lastTileSize thr
       (mainBody (userCode (MatMulPackedProgramCSV2 (a0, a1, a2) oShape tA tB T WPT addBias act)))
       = Some (if R mod T \<noteq> 0 then R - T * (\<lceil>rat_of_int R / rat_of_int T\<rceil> - 1) else T))
    \<and> (declInit ''numTiles''
       (mainBody (userCode (constructed
          (MatMulPackedProgramCSV3 (a0, a1, a2) oShape tA tB T WPT addBias act))))
       = Some (NumE (num \<lceil>rat_of_int R / rat_of_int T\<rceil>))
     \<and> lastTileSize thr
       (mainBody (userCode (constructed
          (MatMulPackedProgramCSV3 (a0, a1, a2) oShape tA tB T WPT addBias act))))
       = Some (if R mod T \<noteq> 0 then R - T * (\<lceil>rat_of_int R / rat_of_int T\<rceil> - 1) else T))
    \<and> (declInit ''numTiles''
       (mainBody (userCode (constructed
          (MatMulPackedProgramCSV4 (a0, a1, a2) oShape tA tB TS T WPT addBias act))))
       = Some (NumE (num \<lceil>rat_of_int R / rat_of_int T\<rceil>))
     \<and> lastTileSize thr
       (mainBody (userCode (constructed
          (MatMulPackedProgramCSV4 (a0, a1, a2) oShape tA tB TS T WPT addBias act))))
       = Some (if R mod T \<noteq> 0 then R - T * (\<lceil>rat_of_int R / rat_of_int T\<rceil> - 1) else T))"
  by (simp add: tiles_V1 [OF assms] tiles_V2 [OF assms] tiles_V3 [OF assms] tiles_V4 [OF assms])

theorem tile_remainder_witness:
  "(3::int) = \<lceil>rat_of_int (if False then 4 else 5) / 2\<rceil> \<and> (0::int) < 3 \<and> (0::int) < 2
   \<and> declInit ''numTiles''
       (mainBody (userCode (MatMulPackedProgramCSV1 (1, 4, 5) (1, 4, 4) False False 2 False None)))
       = Some (NumE (num 2))
   \<and> lastTileSize
       \<lparr> gl_LocalInvocationID = [0, 0, 0], gl_WorkGroupID = [0, 0, 0],
         gl_GlobalInvocationID = [0, 0, 0], gl_LocalInvocationIndex = 0,
         getOutputCoords = [0, 0, 0], getFirstThreadOutputCoords = [0, 0, 0] \<rparr>
       (mainBody (userCode (MatMulPackedProgramCSV1 (1, 4, 5) (1, 4, 4) False False 2 False None)))
       = Some 1
   \<and> declInit ''numTiles''
       (mainBody (userCode (constructed
          (MatMulPackedProgramCSV4 (1, 4, 5) (1, 4, 4) False False 4 2 2 False None))))
       = Some (NumE (num 2))
   \<and> lastTileSize
       \<lparr> gl_LocalInvocationID = [0, 0, 0], gl_WorkGroupID = [0, 0, 0],
         gl_GlobalInvocationID = [0, 0, 0], gl_LocalInvocationIndex = 0,
         getOutputCoords = [0, 0, 0], getFirstThreadOutputCoords = [0, 0, 0] \<rparr>
       (mainBody (userCode (constructed
          (MatMulPackedProgramCSV4 (1, 4, 5) (1, 4, 4) False False 4 2 2 False None))))
       = Some 1"
proof -
  have h: "(3::int) = \<lceil>rat_of_int (if False then 4 else 5) / 2\<rceil>" "(0::int) < 3" "(0::int) < 2"
    by (simp_all add: ceiling_rat_numeral)
  show ?thesis
    using h tile_remainder [OF h, where ?a0.0 = 1 and oShape = "(1, 4, 4)" and tB = False
        and addBias = False and act = None and TS = 4 and WPT = 2
        and thr = "\<lparr> gl_LocalInvocationID = [0, 0, 0], gl_WorkGroupID = [0, 0, 0],
         gl_GlobalInvocationID = [0, 0, 0], gl_LocalInvocationIndex = 0,
         getOutputCoords = [0, 0, 0], getFirstThreadOutputCoords = [0, 0, 0] \<rparr>"]
    by (simp add: ceiling_rat_numeral)
qed

subsection \<open>Channels of the depthwise convolution\<close>

lemma sdiv_nonneg: "0 \<le> a \<Longrightarrow> 0 < b \<Longrightarrow> a sdiv b = a div (b::int)"
  by (simp add: signed_divide_int_def sgn_if)

lemma channelMul_num:
  assumes "0 < ci" shows "jdiv (num (ci * cm)) (num ci) = num cm"
  using assms by (simp add: num_def)

lemma decls_depthwise:
  "declInit ''d1'' (mainBody (userCode (DepthwiseConv2DProgramCS convInfo)))
     = Some (Bin OpDiv (Var ''d2'')
         (NumE (jdiv (num (outChannels convInfo)) (num (inChannels convInfo)))))
   \<and> declInit ''q'' (mainBody (userCode (DepthwiseConv2DProgramCS convInfo)))
     = Some (Bin OpSub (Var ''d2'') (Bin OpMul (Var ''d1'')
         (NumE (jdiv (num (outChannels convInfo)) (num (inChannels convInfo))))))"
  by (simp add: DepthwiseConv2DProgramCS_def Let_def declInit_def statements_def)

lemma channelIndex_depthwise:
  assumes "0 < inChannels convInfo" "0 < cm" "outChannels convInfo = inChannels convInfo * cm"
    "0 \<le> d2" "d2 < outChannels convInfo"
  shows "channelIndex thr (mainBody (userCode (DepthwiseConv2DProgramCS convInfo))) d2
           = Some (d2 div cm, d2 - d2 div cm * cm)"
  unfolding channelIndex_def
  using assms
  by (simp add: decls_depthwise channelMul_num intOp_def sdiv_nonneg) (simp add: num_def intOp_def sdiv_nonneg)


lemma div_less_of_less_mult:
  fixes d cm ic :: int
  assumes "0 < cm" "d < ic * cm"
  shows "d div cm < ic"
proof (rule ccontr)
  assume "\<not> d div cm < ic"
  then have "ic * cm \<le> (d div cm) * cm"
    using assms by (simp add: mult_right_mono)
  moreover have "(d div cm) * cm + d mod cm = d" by simp
  moreover have "0 \<le> d mod cm" using assms by simp
  ultimately show False using assms by linarith
qed

text \<open>
  C8. When \<^verbatim>\<open>outChannels\<close> is \<^verbatim>\<open>inChannels\<close> times a positive integer \<open>cm\<close> and
  \<open>0 \<le> d2 < outChannels\<close>, the depthwise body initialises \<^verbatim>\<open>d1\<close> with \<open>d2 div cm\<close> and
  \<^verbatim>\<open>q\<close> with \<open>d2 - d1 * cm\<close>, and \<open>0 \<le> d1 < inChannels\<close> and \<open>0 \<le> q < cm\<close>. With 3 input
  channels, \<open>cm = 2\<close> and \<open>d2 = 5\<close> this gives \<open>d1 = 2\<close> and \<open>q = 1\<close>.
\<close>

theorem depthwise_channel_index:
  assumes "0 < inChannels convInfo" "0 < cm" "outChannels convInfo = inChannels convInfo * cm"
    "0 \<le> d2" "d2 < outChannels convInfo"
  shows "channelIndex thr (mainBody (userCode (DepthwiseConv2DProgramCS convInfo))) d2
           = Some (d2 div cm, d2 - d2 div cm * cm)
    \<and> 0 \<le> d2 div cm \<and> d2 div cm < inChannels convInfo
    \<and> 0 \<le> d2 - d2 div cm * cm \<and> d2 - d2 div cm * cm < cm"
proof -
  have "d2 div cm < inChannels convInfo"
    using assms by (simp add: div_less_of_less_mult)
  moreover have "0 \<le> d2 div cm" using assms by (simp add: pos_imp_zdiv_nonneg_iff)
  moreover have "d2 - d2 div cm * cm = d2 mod cm"
    by (simp add: minus_div_mult_eq_mod)
  ultimately show ?thesis
    using assms channelIndex_depthwise [OF assms, of thr] by simp
qed

theorem depthwise_channel_index_witness:
  "(0::int) < 3 \<and> (0::int) < 2 \<and> (6::int) = 3 * 2 \<and> (0::int) \<le> 5 \<and> (5::int) < 6
   \<and> channelIndex
       \<lparr> gl_LocalInvocationID = [5, 0, 0], gl_WorkGroupID = [0, 0, 0],
         gl_GlobalInvocationID = [5, 0, 0], gl_LocalInvocationIndex = 5,
         getOutputCoords = [0, 0, 0, 5], getFirstThreadOutputCoords = [0, 0, 0, 0] \<rparr>
       (mainBody (userCode (DepthwiseConv2DProgramCS
         \<lparr> outShape = [1, 8, 8, 6], inHeight = 8, inWidth = 8, inChannels = 3, outChannels = 6,
           padInfo = \<lparr> padTop = 1, padLeft = 1 \<rparr>, strideHeight = 1, strideWidth = 1,
           dilationHeight = 1, dilationWidth = 1, filterHeight = 3, filterWidth = 3 \<rparr>))) 5
       = Some (2, 1)"
  using depthwise_channel_index [where cm = 2 and ?d2.0 = 5 and convInfo =
         "\<lparr> outShape = [1, 8, 8, 6], inHeight = 8, inWidth = 8, inChannels = 3, outChannels = 6,
           padInfo = \<lparr> padTop = 1, padLeft = 1 \<rparr>, strideHeight = 1, strideWidth = 1,
           dilationHeight = 1, dilationWidth = 1, filterHeight = 3, filterWidth = 3 \<rparr>"
         and thr = "\<lparr> gl_LocalInvocationID = [5, 0, 0], gl_WorkGroupID = [0, 0, 0],
         gl_GlobalInvocationID = [5, 0, 0], gl_LocalInvocationIndex = 5,
         getOutputCoords = [0, 0, 0, 5], getFirstThreadOutputCoords = [0, 0, 0, 0] \<rparr>"]
  by simp

subsection \<open>Stores outside the output\<close>

text \<open>
  C4. In every variant an accumulator whose coordinate is outside the packed output should
  never be stored. The second variant stores it: for \<^verbatim>\<open>outputShape = [1,6,6]\<close>, packed to
  3 by 3, with \<^verbatim>\<open>TS = 2\<close> and \<^verbatim>\<open>WPT = 2\<close>, the invocation (1, 0) of the workgroup
  (1, 1) stores at column 3, rows 2 and 3, and no test guards its \<^verbatim>\<open>imageStore\<close>. On the
  same product the third variant, whose workgroup (1, 1) has the one invocation (0, 0) with
  four accumulators, stores at column 2, row 2 only, which is inside.
\<close>

theorem v2_stores_out_of_range:
  "map_option imageStores (traceOf (run 400
      \<lparr> gl_LocalInvocationID = [1, 0, 0], gl_WorkGroupID = [1, 1, 0],
        gl_GlobalInvocationID = [3, 1, 0], gl_LocalInvocationIndex = 1,
        getOutputCoords = [0, 2, 3], getFirstThreadOutputCoords = [0, 2, 2] \<rparr>
      (userCode (MatMulPackedProgramCSV2 (1, 6, 2) (1, 6, 6) False False 2 2 False None))))
     = Some [[3, 2], [3, 3]]
   \<and> \<not> inExtents [3, 3] [3, 2] \<and> \<not> inExtents [3, 3] [3, 3]
   \<and> unguarded (NumE (num 3)) (NumE (num 3)) []
        (mainBody (userCode (MatMulPackedProgramCSV2 (1, 6, 2) (1, 6, 6) False False 2 2 False None)))
       \<noteq> []
   \<and> map_option imageStores (traceOf (run 400
      \<lparr> gl_LocalInvocationID = [0, 0, 0], gl_WorkGroupID = [1, 1, 0],
        gl_GlobalInvocationID = [1, 1, 0], gl_LocalInvocationIndex = 0,
        getOutputCoords = [0, 2, 2], getFirstThreadOutputCoords = [0, 2, 2] \<rparr>
      (userCode (constructed
        (MatMulPackedProgramCSV3 (1, 6, 2) (1, 6, 6) False False 2 2 False None)))))
     = Some [[2, 2]]
   \<and> inExtents [3, 3] [2, 2]"
  by code_simp

text \<open>
  In the third and the fourth variant the only commit of the body is an \<^verbatim>\<open>imageStore\<close>,
  and it is guarded: its row is tested against the ceiling of \<^verbatim>\<open>outputShape[1] / 2\<close> and
  its column against the ceiling of \<^verbatim>\<open>outputShape[2] / 2\<close>, and the iteration is skipped
  when either is reached. The second variant has the same \<^verbatim>\<open>imageStore\<close> with no test
  before it, whatever its arguments. The first variant commits with \<^verbatim>\<open>setOutput(result)\<close>,
  which names no coordinate.
\<close>

lemma guarded_V3:
  "unguarded (NumE (num \<lceil>rat_of_int o1 / 2\<rceil>)) (NumE (num \<lceil>rat_of_int o2 / 2\<rceil>)) []
     (mainBody (userCode (constructed
        (MatMulPackedProgramCSV3 aShape (o0, o1, o2) tA tB TS WPT addBias act)))) = []
   \<and> filter commits (statements (mainBody (userCode (constructed
        (MatMulPackedProgramCSV3 aShape (o0, o1, o2) tA tB TS WPT addBias act)))))
     = [CallS ''imageStore''
         [Var ''outputColor'', Call ''ivec2'' [Var ''outputCol'', Var ''outputRow''],
          Index (Index (Var ''result'') (Var ''innerRow'')) (Var ''innerCol'')]]"
  by (cases "truthy act";
      simp add: MatMulPackedProgramCSV3_def Let_def statements_def guardOn_def storesInRange_def
        forget_def num_def split del: if_split)

lemma guarded_V4:
  "unguarded (NumE (num \<lceil>rat_of_int o1 / 2\<rceil>)) (NumE (num \<lceil>rat_of_int o2 / 2\<rceil>)) []
     (mainBody (userCode (constructed
        (MatMulPackedProgramCSV4 aShape (o0, o1, o2) tA tB TS TSK WPT addBias act)))) = []
   \<and> filter commits (statements (mainBody (userCode (constructed
        (MatMulPackedProgramCSV4 aShape (o0, o1, o2) tA tB TS TSK WPT addBias act)))))
     = [CallS ''imageStore''
         [Var ''outputColor'', Call ''ivec2'' [Var ''globalCol'', Var ''globalRow''],
          Index (Index (Var ''acc'') (Var ''wm'')) (Var ''wn'')]]"
  by (cases "truthy act";
      simp add: MatMulPackedProgramCSV4_def Let_def statements_def guardOn_def storesInRange_def
        forget_def num_def split del: if_split)

lemma commit_V1:
  "filter commits (statements (mainBody (userCode
        (MatMulPackedProgramCSV1 aShape oShape tA tB TS addBias act))))
     = [CallS ''setOutput'' [Var ''result'']]"
  by (cases addBias; cases "truthy act";
      simp add: MatMulPackedProgramCSV1_def Let_def statements_def split del: if_split)

lemma unguarded_V2:
  "unguarded rb cb [] (mainBody (userCode
        (MatMulPackedProgramCSV2 aShape oShape tA tB TS WPT addBias act)))
     = [CallS ''imageStore''
         [Var ''outputColor'',
          Call ''ivec2'' [Var ''globalCol'',
            Bin OpAdd (Var ''globalRow'') (Bin OpMul (Var ''w'') (NumE (jdiv (num TS) (num WPT))))],
          Index (Var ''result'') (Var ''w'')]]"
  by (cases addBias; cases "truthy act";
      simp add: MatMulPackedProgramCSV2_def Let_def guardOn_def storesInRange_def forget_def
        split del: if_split)

subsection \<open>Reads of the cache of the standard convolution\<close>

text \<open>
  C3. No invocation should index the shared cache outside its extents. The standard
  convolution does: with a 4 by 4 input, a 3 by 3 filter, stride 1 and padding 1, the cache
  is declared \<open>[3][17]\<close> and the invocation of the output at row 1, column 0 reads the cells
  \<open>[-1][0]\<close> and \<open>[-1][1]\<close> for the input row 0, which is inside the input: the origin of the
  cache does not subtract the padding, that of the receptive field does.
\<close>

theorem conv_reads_outside_cache:
  "map_option (readCells ''cache'') (traceOf (run 1000
      \<lparr> gl_LocalInvocationID = [0, 0, 0], gl_WorkGroupID = [0, 0, 1],
        gl_GlobalInvocationID = [0, 0, 1], gl_LocalInvocationIndex = 0,
        getOutputCoords = [0, 1, 0, 0], getFirstThreadOutputCoords = [0, 1, 0, 0] \<rparr>
      (userCode (Conv2DProgramCS
        \<lparr> outShape = [1, 4, 4, 1], inHeight = 4, inWidth = 4, inChannels = 1, outChannels = 1,
          padInfo = \<lparr> padTop = 1, padLeft = 1 \<rparr>, strideHeight = 1, strideWidth = 1,
          dilationHeight = 1, dilationWidth = 1, filterHeight = 3, filterWidth = 3 \<rparr>))))
     = Some [[- 1, 0], [- 1, 1], [0, 0], [0, 1], [1, 0], [1, 1]]
   \<and> declaredExtents
      \<lparr> gl_LocalInvocationID = [0, 0, 0], gl_WorkGroupID = [0, 0, 1],
        gl_GlobalInvocationID = [0, 0, 1], gl_LocalInvocationIndex = 0,
        getOutputCoords = [0, 1, 0, 0], getFirstThreadOutputCoords = [0, 1, 0, 0] \<rparr>
      (userCode (Conv2DProgramCS
        \<lparr> outShape = [1, 4, 4, 1], inHeight = 4, inWidth = 4, inChannels = 1, outChannels = 1,
          padInfo = \<lparr> padTop = 1, padLeft = 1 \<rparr>, strideHeight = 1, strideWidth = 1,
          dilationHeight = 1, dilationWidth = 1, filterHeight = 3, filterWidth = 3 \<rparr>))
      ''cache''
     = Some [IntV 3, IntV 17]
   \<and> \<not> inExtents [3, 17] [- 1, 0]"
  by code_simp

end
